theory Spec2Isabelle
  imports Complex_Main
begin

section \<open>Conventions of the embedding\<close>

text \<open>
  The development embeds the core of the \<open>steerbt\<close> package: \<open>uv3_math.py\<close>,
  \<open>curves.py\<close>, \<open>triggers.py\<close>, \<open>portfolio.py\<close>, \<open>strategies/base.py\<close>,
  \<open>strategies/classic.py\<close> and the bar loop of \<open>backtester.py\<close>.

  Python \<open>int\<close> values are \<^typ>\<open>int\<close>.  A method that changes its object takes the
  object and returns the changed one.  An exception is a value \<open>Inl e\<close> of the sum type
  \<open>py_error + 'a\<close>.  Besides the \<open>raise\<close> statements of the source, the model writes out
  where Python raises by itself: \<open>int(nan)\<close> (\<open>ValueError\<close>), \<open>int\<close> of an infinity, the
  conversion of a too large \<open>int\<close> to a float and the square of a Python float out of
  range (\<open>OverflowError\<close>), a division of Python floats by zero (\<open>ZeroDivisionError\<close>),
  an index past the end of a list (\<open>IndexError\<close>), the addition of numpy arrays of
  different shapes (\<open>ValueError\<close>) and the difference of a timestamp and \<open>None\<close>
  (\<open>TypeError\<close>).

  Floats come in two forms.  In \<open>curves.py\<close> and in the amount and liquidity conversions
  of \<open>uv3_math.py\<close>, where a float can become infinite or NaN, a float is a value of the
  datatype \<open>float\<close> below: a finite number, one of the two infinities, or NaN.  The
  operations on it follow IEEE 754 for the special values, and a finite result whose
  magnitude reaches \<open>float_limit\<close> becomes an infinity.  Rounding of finite results is
  not modelled (a finite result is the exact real number), and neither are signed
  zeros; a zero divisor under a numpy division occurs in the source only where the sign
  of the infinity does not matter, because the quotient is squared or its sign is that of
  the dividend.  Everywhere else (prices, cash, fees, thresholds of the portfolio, the
  triggers, the policies and the engine) a float is a \<^typ>\<open>real\<close> and its arithmetic is
  exact.  The value \<open>NotFinite\<close> of \<open>py_error\<close> is not an exception of Python: it marks
  the point where a policy receives a distribution with an infinite or NaN entry from
  its curve, which the source would carry on computing with and the model of the policies
  cannot represent.
\<close>

datatype py_error =
  ValueError | ZeroDivisionError | IndexError | TypeError | OverflowError | NotFinite

text \<open>Sequencing of computations that may raise: the first exception wins.\<close>

definition py_bind :: "py_error + 'a \<Rightarrow> ('a \<Rightarrow> py_error + 'b) \<Rightarrow> py_error + 'b" where
  "py_bind m f = (case m of Inl e \<Rightarrow> Inl e | Inr v \<Rightarrow> f v)"

text \<open>Python's \<open>int(x)\<close> on a float truncates towards zero.\<close>

definition py_int :: "real \<Rightarrow> int" where
  "py_int x = (if 0 \<le> x then \<lfloor>x\<rfloor> else \<lceil>x\<rceil>)"

subsection \<open>Floats with infinities and NaN\<close>

datatype float = Fin real | PInf | NInf | NaN

text \<open>The least magnitude that rounds to an infinity: halfway between the largest
  double, \<open>2 ^ 1024 - 2 ^ 971\<close>, and \<open>2 ^ 1024\<close>.\<close>

definition float_limit :: real where
  "float_limit = 2 ^ 1024 - 2 ^ 970"

text \<open>The float of an exact finite result.\<close>

definition to_float :: "real \<Rightarrow> float" where
  "to_float x = (if float_limit \<le> x then PInf else if x \<le> - float_limit then NInf else Fin x)"

fun is_finite :: "float \<Rightarrow> bool" where
  "is_finite (Fin x) = True"
| "is_finite a = False"

fun the_real :: "float \<Rightarrow> real" where
  "the_real (Fin x) = x"
| "the_real a = 0"

text \<open>The sign of a float, and the infinity (or NaN) with a given sign.\<close>

fun fl_sgn :: "float \<Rightarrow> real" where
  "fl_sgn (Fin x) = sgn x"
| "fl_sgn PInf = 1"
| "fl_sgn NInf = - 1"
| "fl_sgn NaN = 0"

definition fl_inf :: "real \<Rightarrow> float" where
  "fl_inf s = (if 0 < s then PInf else if s < 0 then NInf else NaN)"

fun fl_neg :: "float \<Rightarrow> float" where
  "fl_neg (Fin x) = Fin (- x)"
| "fl_neg PInf = NInf"
| "fl_neg NInf = PInf"
| "fl_neg NaN = NaN"

fun fl_abs :: "float \<Rightarrow> float" where
  "fl_abs (Fin x) = Fin \<bar>x\<bar>"
| "fl_abs PInf = PInf"
| "fl_abs NInf = PInf"
| "fl_abs NaN = NaN"

fun fl_add :: "float \<Rightarrow> float \<Rightarrow> float" where
  "fl_add NaN b = NaN"
| "fl_add a NaN = NaN"
| "fl_add (Fin x) (Fin y) = to_float (x + y)"
| "fl_add (Fin x) b = b"
| "fl_add a (Fin y) = a"
| "fl_add a b = (if a = b then a else NaN)"

definition fl_sub :: "float \<Rightarrow> float \<Rightarrow> float" where
  "fl_sub a b = fl_add a (fl_neg b)"

fun fl_mul :: "float \<Rightarrow> float \<Rightarrow> float" where
  "fl_mul NaN b = NaN"
| "fl_mul a NaN = NaN"
| "fl_mul (Fin x) (Fin y) = to_float (x * y)"
| "fl_mul a b = fl_inf (fl_sgn a * fl_sgn b)"

text \<open>The division of numpy floats, which does not raise: a finite number by zero is
  an infinity, zero by zero is NaN.\<close>

fun fl_div :: "float \<Rightarrow> float \<Rightarrow> float" where
  "fl_div NaN b = NaN"
| "fl_div a NaN = NaN"
| "fl_div (Fin x) (Fin y) = (if y = 0 then fl_inf (sgn x) else to_float (x / y))"
| "fl_div (Fin x) b = Fin 0"
| "fl_div a (Fin y) = fl_inf (fl_sgn a * (if y < 0 then - 1 else 1))"
| "fl_div a b = NaN"

text \<open>\<open>a < b\<close> on floats: false whenever one of them is NaN.\<close>

fun fl_less :: "float \<Rightarrow> float \<Rightarrow> bool" where
  "fl_less (Fin x) (Fin y) = (x < y)"
| "fl_less (Fin x) PInf = True"
| "fl_less NInf (Fin y) = True"
| "fl_less NInf PInf = True"
| "fl_less a b = False"

text \<open>Python's \<open>max(a, b)\<close> keeps \<open>a\<close> unless \<open>b > a\<close>, so \<open>max(nan, b)\<close> is NaN.\<close>

definition py_max :: "float \<Rightarrow> float \<Rightarrow> float" where
  "py_max a b = (if fl_less a b then b else a)"

text \<open>\<open>np.exp\<close>, \<open>np.log\<close> and the square of a numpy float; none of them raises.\<close>

fun np_exp :: "float \<Rightarrow> float" where
  "np_exp (Fin x) = to_float (exp x)"
| "np_exp PInf = PInf"
| "np_exp NInf = Fin 0"
| "np_exp NaN = NaN"

fun np_log :: "float \<Rightarrow> float" where
  "np_log (Fin x) = (if 0 < x then Fin (ln x) else if x = 0 then NInf else NaN)"
| "np_log PInf = PInf"
| "np_log a = NaN"

definition np_square :: "float \<Rightarrow> float" where
  "np_square a = fl_mul a a"

text \<open>The operations of Python's own floats and ints that raise: \<open>a / b\<close> with a zero
  divisor, \<open>a ** 2\<close> with a finite \<open>a\<close> whose square is out of range, the conversion of an
  \<open>int\<close> to a float, the true division of two \<open>int\<close>s, and \<open>int(a)\<close>.\<close>

definition py_truediv :: "float \<Rightarrow> float \<Rightarrow> py_error + float" where
  "py_truediv a b = (if b = Fin 0 then Inl ZeroDivisionError else Inr (fl_div a b))"

fun py_square :: "float \<Rightarrow> py_error + float" where
  "py_square (Fin x) = (if float_limit \<le> x ^ 2 then Inl OverflowError else Inr (Fin (x ^ 2)))"
| "py_square NaN = Inr NaN"
| "py_square a = Inr PInf"

definition int_to_float :: "int \<Rightarrow> py_error + float" where
  "int_to_float i =
     (if float_limit \<le> \<bar>real_of_int i\<bar> then Inl OverflowError else Inr (Fin (real_of_int i)))"

definition int_truediv :: "int \<Rightarrow> int \<Rightarrow> py_error + float" where
  "int_truediv i j =
     (if j = 0 then Inl ZeroDivisionError
      else if float_limit \<le> \<bar>real_of_int i / real_of_int j\<bar> then Inl OverflowError
      else Inr (Fin (real_of_int i / real_of_int j)))"

fun float_to_int :: "float \<Rightarrow> py_error + int" where
  "float_to_int (Fin x) = Inr (py_int x)"
| "float_to_int NaN = Inl ValueError"
| "float_to_int a = Inl OverflowError"

section \<open>\<open>uv3_math.py\<close>: fixed-point price mathematics\<close>

definition Q96 :: int where
  "Q96 = 2 ^ 96"

definition sqrt_price_x96_to_price :: "int \<Rightarrow> real" where
  "sqrt_price_x96_to_price sqrt_price_x96 = (real_of_int sqrt_price_x96 / real_of_int Q96) ^ 2"

text \<open>\<open>int(np.sqrt(price) * Q96)\<close>; the square root of a negative float is NaN, which
  \<open>int\<close> refuses.\<close>

definition price_to_sqrt_price_x96 :: "real \<Rightarrow> py_error + int" where
  "price_to_sqrt_price_x96 price =
     (if price < 0 then Inl ValueError
      else Inr (py_int (sqrt price * real_of_int Q96)))"

text \<open>The same two conversions with the rounding of the float operations written out:
  \<open>rnd\<close> maps the exact result of one operation (\<open>np.sqrt\<close>, the product with \<open>Q96\<close>, the
  quotient by \<open>Q96\<close>, the square) to the float that the operation returns.  With the
  identity for \<open>rnd\<close> they are the two functions above.\<close>

definition price_to_sqrt_price_x96_fl :: "(real \<Rightarrow> real) \<Rightarrow> real \<Rightarrow> py_error + int" where
  "price_to_sqrt_price_x96_fl rnd price =
     (if price < 0 then Inl ValueError
      else Inr (py_int (rnd (rnd (sqrt price) * real_of_int Q96))))"

definition sqrt_price_x96_to_price_fl :: "(real \<Rightarrow> real) \<Rightarrow> int \<Rightarrow> real" where
  "sqrt_price_x96_to_price_fl rnd sqrt_price_x96 =
     rnd ((rnd (real_of_int sqrt_price_x96 / real_of_int Q96)) ^ 2)"

text \<open>The four conversions between amounts and liquidity.  Each divides \<open>int\<close>s by
  \<open>Q96\<close>, multiplies an \<open>int\<close> by the float quotient, which converts the \<open>int\<close>, and ends
  with \<open>int\<close> of the float result; the operations are taken in the order in which Python
  evaluates them.\<close>

definition get_amount0_for_liquidity :: "int \<Rightarrow> int \<Rightarrow> int \<Rightarrow> py_error + int" where
  "get_amount0_for_liquidity sqrt_price_a_x96 sqrt_price_b_x96 liquidity =
     (let (a, b) = (if sqrt_price_a_x96 > sqrt_price_b_x96
                    then (sqrt_price_b_x96, sqrt_price_a_x96)
                    else (sqrt_price_a_x96, sqrt_price_b_x96));
          diff_x96 = b - a
      in if diff_x96 = 0 then Inr 0
         else
           py_bind (int_truediv diff_x96 Q96) (\<lambda>d.
           py_bind (int_to_float liquidity) (\<lambda>l.
           py_bind (int_truediv a Q96) (\<lambda>fa.
           py_bind (int_truediv b Q96) (\<lambda>fb.
           py_bind (py_truediv (fl_mul l d) (fl_mul fa fb)) (\<lambda>amount0_float.
             float_to_int amount0_float))))))"

definition get_amount1_for_liquidity :: "int \<Rightarrow> int \<Rightarrow> int \<Rightarrow> py_error + int" where
  "get_amount1_for_liquidity sqrt_price_a_x96 sqrt_price_b_x96 liquidity =
     (let (a, b) = (if sqrt_price_a_x96 > sqrt_price_b_x96
                    then (sqrt_price_b_x96, sqrt_price_a_x96)
                    else (sqrt_price_a_x96, sqrt_price_b_x96));
          diff_x96 = b - a
      in if diff_x96 = 0 then Inr 0
         else
           py_bind (int_truediv diff_x96 Q96) (\<lambda>d.
           py_bind (int_to_float liquidity) (\<lambda>l.
             float_to_int (fl_mul l d))))"

definition get_liquidity_for_amount0 :: "int \<Rightarrow> int \<Rightarrow> int \<Rightarrow> py_error + int" where
  "get_liquidity_for_amount0 sqrt_price_a_x96 sqrt_price_b_x96 amount0 =
     (let (a, b) = (if sqrt_price_a_x96 > sqrt_price_b_x96
                    then (sqrt_price_b_x96, sqrt_price_a_x96)
                    else (sqrt_price_a_x96, sqrt_price_b_x96));
          diff_x96 = b - a
      in if diff_x96 = 0 then Inr 0
         else
           py_bind (int_truediv a Q96) (\<lambda>fa.
           py_bind (int_to_float amount0) (\<lambda>am.
           py_bind (int_truediv b Q96) (\<lambda>fb.
           py_bind (int_truediv diff_x96 Q96) (\<lambda>d.
           py_bind (py_truediv (fl_mul (fl_mul am fa) fb) d) (\<lambda>liquidity_float.
             float_to_int liquidity_float))))))"

definition get_liquidity_for_amount1 :: "int \<Rightarrow> int \<Rightarrow> int \<Rightarrow> py_error + int" where
  "get_liquidity_for_amount1 sqrt_price_a_x96 sqrt_price_b_x96 amount1 =
     (let (a, b) = (if sqrt_price_a_x96 > sqrt_price_b_x96
                    then (sqrt_price_b_x96, sqrt_price_a_x96)
                    else (sqrt_price_a_x96, sqrt_price_b_x96));
          diff_x96 = b - a
      in if diff_x96 = 0 then Inr 0
         else
           py_bind (int_truediv diff_x96 Q96) (\<lambda>d.
           py_bind (int_to_float amount1) (\<lambda>am.
           py_bind (py_truediv am d) (\<lambda>liquidity_float.
             float_to_int liquidity_float))))"

definition get_amounts_for_liquidity ::
    "int \<Rightarrow> int \<Rightarrow> int \<Rightarrow> int \<Rightarrow> py_error + (int \<times> int)" where
  "get_amounts_for_liquidity sqrt_price_x96 sqrt_price_a_x96 sqrt_price_b_x96 liquidity =
     (let (a, b) = (if sqrt_price_a_x96 > sqrt_price_b_x96
                    then (sqrt_price_b_x96, sqrt_price_a_x96)
                    else (sqrt_price_a_x96, sqrt_price_b_x96))
      in if sqrt_price_x96 \<le> a then
           py_bind (get_amount0_for_liquidity a b liquidity) (\<lambda>amount0.
             Inr (amount0, 0))
         else if sqrt_price_x96 \<ge> b then
           py_bind (get_amount1_for_liquidity a b liquidity) (\<lambda>amount1.
             Inr (0, amount1))
         else
           py_bind (get_amount0_for_liquidity sqrt_price_x96 b liquidity) (\<lambda>amount0.
           py_bind (get_amount1_for_liquidity a sqrt_price_x96 liquidity) (\<lambda>amount1.
             Inr (amount0, amount1))))"

text \<open>The parameter \<open>fee_tier_bps\<close> of the source is accepted and never read.\<close>

definition calculate_position_value ::
    "real \<Rightarrow> real \<Rightarrow> real \<Rightarrow> real \<Rightarrow> py_error + (real \<times> real \<times> real)" where
  "calculate_position_value price lower_price upper_price liquidity =
     py_bind (price_to_sqrt_price_x96 price) (\<lambda>sqrt_price_x96.
     py_bind (price_to_sqrt_price_x96 lower_price) (\<lambda>sqrt_lower_x96.
     py_bind (price_to_sqrt_price_x96 upper_price) (\<lambda>sqrt_upper_x96.
     py_bind (get_amounts_for_liquidity sqrt_price_x96 sqrt_lower_x96 sqrt_upper_x96
                (py_int liquidity)) (\<lambda>(amount0, amount1).
       let amount0_decimal = real_of_int amount0 / real_of_int Q96;
           amount1_decimal = real_of_int amount1 / real_of_int Q96;
           total_value = amount0_decimal * price + amount1_decimal
       in Inr (amount0_decimal, amount1_decimal, total_value)))))"

section \<open>\<open>portfolio.py\<close>: positions and portfolio accounting\<close>

text \<open>Timestamps are integers (seconds).  The fields \<open>created_at\<close> and
  \<open>last_rebalance_at\<close> of a position and the \<open>timestamp\<close> of a transaction record hold
  \<open>datetime.now()\<close>; no function of the model reads them and they are left out.\<close>

record position =
  lower_price :: real
  upper_price :: real
  liquidity :: real
  fee_tier_bps :: int
  fees_earned :: real

text \<open>\<open>Position(lower, upper, liquidity)\<close> with the default fee tier.\<close>

definition Position :: "real \<Rightarrow> real \<Rightarrow> real \<Rightarrow> position" where
  "Position lower upper liq =
     \<lparr>lower_price = lower, upper_price = upper, liquidity = liq,
      fee_tier_bps = 500, fees_earned = 0\<rparr>"

definition get_value :: "position \<Rightarrow> real \<Rightarrow> py_error + (real \<times> real \<times> real)" where
  "get_value pos current_price =
     calculate_position_value current_price (lower_price pos) (upper_price pos) (liquidity pos)"

definition is_in_range :: "position \<Rightarrow> real \<Rightarrow> bool" where
  "is_in_range pos price \<longleftrightarrow> lower_price pos \<le> price \<and> price \<le> upper_price pos"

definition add_fees :: "position \<Rightarrow> real \<Rightarrow> position" where
  "add_fees pos fees = pos\<lparr>fees_earned := fees_earned pos + fees\<rparr>"

record transaction =
  tx_type :: string
  tx_cost :: real
  tx_positions_count :: nat

record equity_point =
  ep_timestamp :: int
  ep_price :: real
  ep_total_value :: real
  ep_cash :: real
  ep_positions_value :: real
  ep_fees_earned :: real
  ep_total_costs :: real

record portfolio =
  initial_cash :: real
  cash :: real
  fee_bps :: int
  slippage_bps :: int
  gas_cost :: real
  positions :: "position list"
  transaction_history :: "transaction list"
  equity_curve :: "equity_point list"
  total_fees_paid :: real
  total_gas_paid :: real
  total_slippage :: real
  rebalance_count :: nat

text \<open>\<open>Portfolio.__init__\<close>.\<close>

definition Portfolio :: "real \<Rightarrow> int \<Rightarrow> int \<Rightarrow> real \<Rightarrow> portfolio" where
  "Portfolio initial fee slippage gas =
     \<lparr>initial_cash = initial, cash = initial, fee_bps = fee, slippage_bps = slippage,
      gas_cost = gas, positions = [], transaction_history = [], equity_curve = [],
      total_fees_paid = 0, total_gas_paid = 0, total_slippage = 0, rebalance_count = 0\<rparr>"

text \<open>The loop of \<open>get_total_value\<close>, with the running total as accumulator.\<close>

fun total_value_loop :: "real \<Rightarrow> position list \<Rightarrow> real \<Rightarrow> py_error + real" where
  "total_value_loop tot [] current_price = Inr tot"
| "total_value_loop tot (pos # ps) current_price =
     py_bind (get_value pos current_price) (\<lambda>(_, _, position_value).
       total_value_loop (tot + (position_value + fees_earned pos)) ps current_price)"

definition get_total_value :: "portfolio \<Rightarrow> real \<Rightarrow> py_error + real" where
  "get_total_value p current_price = total_value_loop (cash p) (positions p) current_price"

text \<open>The four loops of \<open>rebalance_positions\<close>.  The first two only compute lists of
  values; the third credits the cash, the fourth opens the new positions and sums
  the trading fees.  A loop that raises leaves the state as it is at that moment.\<close>

fun current_values_loop :: "position list \<Rightarrow> real \<Rightarrow> py_error + real list" where
  "current_values_loop [] current_price = Inr []"
| "current_values_loop (pos # ps) current_price =
     py_bind (get_value pos current_price) (\<lambda>(_, _, v).
     py_bind (current_values_loop ps current_price) (\<lambda>vs.
       Inr ((v + fees_earned pos) # vs)))"

fun new_values_loop :: "((real \<times> real) \<times> real) list \<Rightarrow> real \<Rightarrow> py_error + real list" where
  "new_values_loop [] current_price = Inr []"
| "new_values_loop (((lower, upper), liq) # rs) current_price =
     py_bind (calculate_position_value current_price lower upper liq) (\<lambda>(_, _, v).
     py_bind (new_values_loop rs current_price) (\<lambda>vs. Inr (v # vs)))"

fun remove_old_loop :: "position list \<Rightarrow> real \<Rightarrow> real \<Rightarrow> py_error option \<times> real" where
  "remove_old_loop [] current_price c = (None, c)"
| "remove_old_loop (pos # ps) current_price c =
     (case get_value pos current_price of
        Inl e \<Rightarrow> (Some e, c)
      | Inr (_, _, v) \<Rightarrow> remove_old_loop ps current_price (c + (v + fees_earned pos)))"

fun add_new_loop ::
    "((real \<times> real) \<times> real) list \<Rightarrow> real \<Rightarrow> int \<Rightarrow> position list \<Rightarrow> real
     \<Rightarrow> py_error option \<times> position list \<times> real" where
  "add_new_loop [] current_price fee ps total_cost = (None, ps, total_cost)"
| "add_new_loop (((lower, upper), liq) # rs) current_price fee ps total_cost =
     (let new_position = Position lower upper liq;
          ps' = ps @ [new_position]
      in case get_value new_position current_price of
           Inl e \<Rightarrow> (Some e, ps', total_cost)
         | Inr (_, _, v) \<Rightarrow>
             add_new_loop rs current_price fee ps'
               (total_cost + v * (real_of_int fee / 10000)))"

text \<open>\<open>rebalance_positions\<close> returns the raised exception or the cost, and the
  portfolio as the call leaves it.\<close>

definition rebalance_positions ::
    "portfolio \<Rightarrow> (real \<times> real) list \<Rightarrow> real list \<Rightarrow> real \<Rightarrow> (py_error + real) \<times> portfolio" where
  "rebalance_positions p new_ranges new_liquidities current_price =
     (if length new_ranges \<noteq> length new_liquidities then (Inl ValueError, p)
      else case current_values_loop (positions p) current_price of
        Inl e \<Rightarrow> (Inl e, p)
      | Inr current_values \<Rightarrow>
     (case new_values_loop (zip new_ranges new_liquidities) current_price of
        Inl e \<Rightarrow> (Inl e, p)
      | Inr new_values \<Rightarrow>
     (case remove_old_loop (positions p) current_price (cash p) of
        (Some e, c) \<Rightarrow> (Inl e, p\<lparr>cash := c\<rparr>)
      | (None, c) \<Rightarrow>
     (case add_new_loop (zip new_ranges new_liquidities) current_price (fee_bps p) [] 0 of
        (Some e, ps, total_cost) \<Rightarrow> (Inl e, p\<lparr>cash := c, positions := ps\<rparr>)
      | (None, ps, total_cost) \<Rightarrow>
          let c' = c - total_cost;
              total_cost' = (if gas_cost p > 0 then total_cost + gas_cost p else total_cost);
              gas_paid = (if gas_cost p > 0 then total_gas_paid p + gas_cost p
                          else total_gas_paid p)
          in (Inr total_cost',
              p\<lparr>cash := c', positions := ps,
                total_gas_paid := gas_paid,
                transaction_history := transaction_history p @
                  [\<lparr>tx_type = ''rebalance'', tx_cost = total_cost',
                    tx_positions_count = length ps\<rparr>],
                rebalance_count := rebalance_count p + 1,
                total_fees_paid := total_fees_paid p + total_cost'\<rparr>)))))"

text \<open>One row of price data.\<close>

record bar =
  bar_timestamp :: int
  bar_open :: real
  bar_high :: real
  bar_low :: real
  bar_close :: real
  bar_volume :: real
  bar_quote_volume :: real

text \<open>\<open>add_fees_to_positions\<close> reads the last row of \<open>volume_data\<close> once for every
  position; with no position nothing is read.\<close>

definition add_fees_to_positions :: "portfolio \<Rightarrow> bar list \<Rightarrow> real \<Rightarrow> py_error + portfolio" where
  "add_fees_to_positions p volume_data liquidity_share =
     (if positions p = [] then Inr p
      else if volume_data = [] then Inl IndexError
      else Inr (p\<lparr>positions :=
             map (\<lambda>pos. if is_in_range pos (bar_close (last volume_data))
                         then add_fees pos (bar_quote_volume (last volume_data) * liquidity_share
                                             * (real_of_int (fee_tier_bps pos) / 10000))
                         else pos)
                 (positions p)\<rparr>))"

definition record_equity_point :: "portfolio \<Rightarrow> int \<Rightarrow> real \<Rightarrow> py_error + portfolio" where
  "record_equity_point p timestamp current_price =
     py_bind (get_total_value p current_price) (\<lambda>total_value.
       Inr (p\<lparr>equity_curve := equity_curve p @
              [\<lparr>ep_timestamp = timestamp, ep_price = current_price,
                ep_total_value = total_value, ep_cash = cash p,
                ep_positions_value = total_value - cash p,
                ep_fees_earned = sum_list (map fees_earned (positions p)),
                ep_total_costs = total_fees_paid p + total_gas_paid p + total_slippage p\<rparr>]\<rparr>))"

subsection \<open>Baseline portfolios\<close>

text \<open>The fields of \<open>BaselinePortfolio\<close> carry the prefix \<open>b_\<close>, those of its equity
  points \<open>bp_\<close>, to keep them apart from the fields of \<open>Portfolio\<close>.\<close>

record baseline_equity_point =
  bp_timestamp :: int
  bp_price :: real
  bp_total_value :: real
  bp_amount0 :: real
  bp_amount1 :: real
  bp_cash :: real

record baseline_portfolio =
  b_initial_cash :: real
  b_cash :: real
  b_strategy :: string
  b_amount0 :: real
  b_amount1 :: real
  b_equity_curve :: "baseline_equity_point list"

definition BaselinePortfolio :: "real \<Rightarrow> string \<Rightarrow> baseline_portfolio" where
  "BaselinePortfolio initial strategy =
     \<lparr>b_initial_cash = initial, b_cash = initial, b_strategy = strategy,
      b_amount0 = 0, b_amount1 = 0, b_equity_curve = []\<rparr>"

definition initialize_position :: "baseline_portfolio \<Rightarrow> real \<Rightarrow> py_error + baseline_portfolio" where
  "initialize_position b initial_price =
     (if b_strategy b = ''hodl_50_50'' then
        (if initial_price = 0 then Inl ZeroDivisionError
         else Inr (b\<lparr>b_amount0 := (b_cash b / 2) / initial_price,
                     b_amount1 := b_cash b / 2, b_cash := 0\<rparr>))
      else if b_strategy b = ''single_asset'' then
        (if initial_price = 0 then Inl ZeroDivisionError
         else Inr (b\<lparr>b_amount0 := b_cash b / initial_price, b_amount1 := 0, b_cash := 0\<rparr>))
      else Inr b)"

definition baseline_get_value :: "baseline_portfolio \<Rightarrow> real \<Rightarrow> real" where
  "baseline_get_value b current_price = b_amount0 b * current_price + b_amount1 b + b_cash b"

definition rebalance_to_50_50 :: "baseline_portfolio \<Rightarrow> real \<Rightarrow> py_error + baseline_portfolio" where
  "rebalance_to_50_50 b current_price =
     (if b_strategy b \<noteq> ''hodl_50_50'' then Inr b
      else let total_value = baseline_get_value b current_price
           in if 2 * current_price = 0 then Inl ZeroDivisionError
              else let target_amount0 = total_value / (2 * current_price);
                       target_amount1 = total_value / 2
                   in Inr (b\<lparr>b_amount0 := target_amount0, b_amount1 := target_amount1\<rparr>))"

definition baseline_record_equity_point ::
    "baseline_portfolio \<Rightarrow> int \<Rightarrow> real \<Rightarrow> baseline_portfolio" where
  "baseline_record_equity_point b timestamp current_price =
     b\<lparr>b_equity_curve := b_equity_curve b @
         [\<lparr>bp_timestamp = timestamp, bp_price = current_price,
           bp_total_value = baseline_get_value b current_price,
           bp_amount0 = b_amount0 b, bp_amount1 = b_amount1 b, bp_cash = b_cash b\<rparr>]\<rparr>"

section \<open>\<open>curves.py\<close>: liquidity distribution curves\<close>

text \<open>A bin is the tuple \<open>(lower_price, upper_price, liquidity)\<close>.\<close>

type_synonym bin = "real \<times> real \<times> real"

text \<open>The six subclasses of \<open>CurveBase\<close> with their own parameters: \<open>slope\<close>,
  \<open>std_dev\<close>, \<open>k\<close>, \<open>base\<close>, \<open>peak_separation\<close> and \<open>peak_width\<close>.\<close>

datatype curve_kind =
    LinearCurve real
  | GaussianCurve real
  | SigmoidCurve real
  | LogarithmicCurve real
  | BidAskCurve real real
  | UniformCurve

record curve =
  max_bins :: int
  mirror :: bool
  invert :: bool
  liquidity_scale :: real
  kind :: curve_kind

text \<open>\<open>CurveFactory.create_curve\<close> with the keyword defaults of the constructors.\<close>

definition default_curve :: "curve_kind \<Rightarrow> curve" where
  "default_curve k =
     \<lparr>max_bins = 10, mirror = False, invert = False, liquidity_scale = 0.001, kind = k\<rparr>"

definition create_curve :: "string \<Rightarrow> py_error + curve" where
  "create_curve curve_type =
     (if curve_type = ''linear'' then Inr (default_curve (LinearCurve 1.0))
      else if curve_type = ''gaussian'' then Inr (default_curve (GaussianCurve 0.5))
      else if curve_type = ''sigmoid'' then Inr (default_curve (SigmoidCurve 5.0))
      else if curve_type = ''logarithmic'' then Inr (default_curve (LogarithmicCurve 2.0))
      else if curve_type = ''bid_ask'' then Inr (default_curve (BidAskCurve 0.1 0.05))
      else if curve_type = ''uniform'' then Inr (default_curve UniformCurve)
      else Inl ValueError)"

text \<open>\<open>np.linspace(start, stop, num)\<close>: \<open>num\<close> evenly spaced samples from \<open>start\<close> to
  \<open>stop\<close>, both included.\<close>

definition linspace :: "real \<Rightarrow> real \<Rightarrow> nat \<Rightarrow> real list" where
  "linspace start stop num =
     map (\<lambda>i. start + real i * ((stop - start) / real (num - 1))) [0..<num]"

text \<open>The least number of bins of each variant, the literal in its \<open>max(\<dots>, bin_count)\<close>.\<close>

fun min_bins :: "curve_kind \<Rightarrow> int" where
  "min_bins (LinearCurve slope) = 2"
| "min_bins (GaussianCurve std_dev) = 3"
| "min_bins (SigmoidCurve k) = 3"
| "min_bins (LogarithmicCurve base) = 3"
| "min_bins (BidAskCurve peak_separation peak_width) = 5"
| "min_bins UniformCurve = 2"

definition bin_count :: "curve \<Rightarrow> real \<Rightarrow> int" where
  "bin_count c width_pct = max (min_bins (kind c)) (min (max_bins c) (py_int (width_pct / 2)))"

definition bin_prices :: "curve \<Rightarrow> real \<Rightarrow> real \<Rightarrow> real list" where
  "bin_prices c center_price width_pct =
     (let width = center_price * width_pct / 100
      in linspace (center_price - width / 2) (center_price + width / 2)
           (nat (bin_count c width_pct + 1)))"

text \<open>The liquidity that the loop of each variant appends for bin \<open>i\<close> of \<open>n\<close>.  The
  Gaussian divides two Python floats by \<open>std_dev\<close>; the loop runs at least once, so a zero
  \<open>std_dev\<close> always raises and \<open>gaussian_liquidities\<close> checks it first.\<close>

definition linear_liquidity :: "real \<Rightarrow> real \<Rightarrow> int \<Rightarrow> nat \<Rightarrow> real" where
  "linear_liquidity slope total_liquidity n i =
     (let distance_from_center = \<bar>real i - real_of_int n / 2\<bar> / (real_of_int n / 2);
          liq = total_liquidity / real_of_int n * (1 - distance_from_center * slope)
      in max liq (total_liquidity / real_of_int n * 0.1))"

definition gaussian_liquidity :: "real \<Rightarrow> real \<Rightarrow> int \<Rightarrow> nat \<Rightarrow> real" where
  "gaussian_liquidity std_dev total_liquidity n i =
     (let center_idx = real_of_int n / 2;
          distance = (real i - center_idx) / (real_of_int n / 2);
          gaussian = exp (- 0.5 * (distance / std_dev) ^ 2);
          liq = total_liquidity / real_of_int n * gaussian
      in max liq (total_liquidity / real_of_int n * 0.05))"

definition sigmoid_liquidity :: "real \<Rightarrow> real \<Rightarrow> int \<Rightarrow> nat \<Rightarrow> real" where
  "sigmoid_liquidity k total_liquidity n i =
     (let x = (real i - real_of_int n / 2) / (real_of_int n / 2) * 2;
          sigmoid = 1 / (1 + exp (- k * x));
          liq = total_liquidity / real_of_int n * sigmoid
      in max liq (total_liquidity / real_of_int n * 0.1))"

definition logarithmic_liquidity :: "real \<Rightarrow> real \<Rightarrow> int \<Rightarrow> nat \<Rightarrow> real" where
  "logarithmic_liquidity base total_liquidity n i =
     (let log_factor = ln (1 + real i + 1) / ln base;
          liq = total_liquidity / real_of_int n * log_factor
      in max liq (total_liquidity / real_of_int n * 0.1))"

definition bid_ask_liquidity ::
    "real \<Rightarrow> real \<Rightarrow> real \<Rightarrow> real list \<Rightarrow> real \<Rightarrow> int \<Rightarrow> nat \<Rightarrow> real" where
  "bid_ask_liquidity peak_separation peak_width center_price prices total_liquidity n i =
     (let price = prices ! i;
          peak1 = center_price - peak_separation * center_price / 2;
          peak2 = center_price + peak_separation * center_price / 2;
          dist1 = \<bar>price - peak1\<bar> / (peak_width * center_price);
          dist2 = \<bar>price - peak2\<bar> / (peak_width * center_price);
          gaussian1 = exp (- 0.5 * dist1 ^ 2);
          gaussian2 = exp (- 0.5 * dist2 ^ 2);
          combined = (gaussian1 + gaussian2) / 2;
          liq = total_liquidity / real_of_int n * combined
      in max liq (total_liquidity / real_of_int n * 0.05))"

text \<open>\<open>a + b\<close> on two one-dimensional numpy arrays: elementwise, a single element is
  broadcast, any other pair of different lengths raises \<open>ValueError\<close>.\<close>

definition np_add :: "real list \<Rightarrow> real list \<Rightarrow> py_error + real list" where
  "np_add xs ys =
     (if length xs = length ys then Inr (map (\<lambda>(x, y). x + y) (zip xs ys))
      else if length xs = 1 then Inr (map (\<lambda>y. hd xs + y) ys)
      else if length ys = 1 then Inr (map (\<lambda>x. x + hd ys) xs)
      else Inl ValueError)"

text \<open>\<open>_apply_transforms\<close>: \<open>prices\<close> is the numpy array of \<open>np.linspace\<close>, so the
  mirror step adds the two slices; \<open>liquidities\<close> is a Python list, and there the
  same expression concatenates.\<close>

definition apply_transforms ::
    "curve \<Rightarrow> real list \<Rightarrow> real list \<Rightarrow> py_error + (real list \<times> real list)" where
  "apply_transforms c prices liquidities =
     py_bind
       (if mirror c then
          (let center_idx = length prices div 2
           in py_bind (np_add (take (center_idx + 1) prices) (rev (drop center_idx prices)))
                (\<lambda>prices'. Inr (prices',
                   take (center_idx + 1) liquidities @ rev (drop center_idx liquidities))))
        else Inr (prices, liquidities))
       (\<lambda>(prices', liquidities').
          if invert c then
            (let max_liq = (case liquidities' of [] \<Rightarrow> 0 | l # ls \<Rightarrow> fold max ls l)
             in Inr (prices', map (\<lambda>liq. max_liq - liq) liquidities'))
          else Inr (prices', liquidities'))"

text \<open>The loop \<open>for i in range(len(prices) - 1)\<close> that builds the bins from
  \<open>prices[i]\<close>, \<open>prices[i + 1]\<close> and \<open>liquidities[i]\<close>.\<close>

fun create_bins :: "real list \<Rightarrow> real list \<Rightarrow> py_error + bin list" where
  "create_bins (lower # upper # ps) (liq # ls) =
     py_bind (create_bins (upper # ps) ls) (\<lambda>bins. Inr ((lower, upper, liq) # bins))"
| "create_bins (lower # upper # ps) [] = Inl IndexError"
| "create_bins ps ls = Inr []"

text \<open>The same loop in \<open>UniformCurve\<close>, with one liquidity for every bin.\<close>

fun create_uniform_bins :: "real list \<Rightarrow> real \<Rightarrow> bin list" where
  "create_uniform_bins (lower # upper # ps) liquidity_per_bin =
     (lower, upper, liquidity_per_bin) # create_uniform_bins (upper # ps) liquidity_per_bin"
| "create_uniform_bins ps liquidity_per_bin = []"

definition generate_distribution_impl ::
    "curve \<Rightarrow> real \<Rightarrow> real \<Rightarrow> real \<Rightarrow> py_error + bin list" where
  "generate_distribution_impl c center_price width_pct total_liquidity =
     (let n = bin_count c width_pct;
          prices = bin_prices c center_price width_pct;
          idx = [0..<nat n]
      in case kind c of
           UniformCurve \<Rightarrow>
             Inr (create_uniform_bins prices (total_liquidity / real_of_int n))
         | LinearCurve slope \<Rightarrow>
             py_bind (apply_transforms c prices
                        (map (linear_liquidity slope total_liquidity n) idx))
               (\<lambda>(prices', liquidities'). create_bins prices' liquidities')
         | GaussianCurve std_dev \<Rightarrow>
             if std_dev = 0 then Inl ZeroDivisionError
             else py_bind (apply_transforms c prices
                             (map (gaussian_liquidity std_dev total_liquidity n) idx))
                    (\<lambda>(prices', liquidities'). create_bins prices' liquidities')
         | SigmoidCurve k \<Rightarrow>
             py_bind (apply_transforms c prices
                        (map (sigmoid_liquidity k total_liquidity n) idx))
               (\<lambda>(prices', liquidities'). create_bins prices' liquidities')
         | LogarithmicCurve base \<Rightarrow>
             py_bind (apply_transforms c prices
                        (map (logarithmic_liquidity base total_liquidity n) idx))
               (\<lambda>(prices', liquidities'). create_bins prices' liquidities')
         | BidAskCurve peak_separation peak_width \<Rightarrow>
             py_bind (apply_transforms c prices
                        (map (bid_ask_liquidity peak_separation peak_width center_price
                                prices total_liquidity n) idx))
               (\<lambda>(prices', liquidities'). create_bins prices' liquidities'))"

definition generate_distribution ::
    "curve \<Rightarrow> real \<Rightarrow> real \<Rightarrow> real \<Rightarrow> py_error + bin list" where
  "generate_distribution c center_price width_pct total_liquidity =
     (let scaled_liquidity = total_liquidity * liquidity_scale c;
          scaled_liquidity' = max scaled_liquidity 100
      in generate_distribution_impl c center_price width_pct scaled_liquidity')"

section \<open>\<open>triggers.py\<close>: rebalancing triggers\<close>

text \<open>The dictionary \<open>current_state\<close> that the strategies build; its keys carry the
  prefix \<open>st_\<close>.  The timestamp is \<open>None\<close> when the price data is empty.\<close>

record trigger_state =
  st_current_price :: real
  st_position_center :: real
  st_lower_price :: real
  st_upper_price :: real
  st_position_value :: real
  st_current_timestamp :: "int option"

text \<open>\<open>CompositeTrigger.__init__\<close> upper-cases the operator and raises \<open>ValueError\<close>
  unless it is \<open>AND\<close> or \<open>OR\<close>, so a constructed composite holds one of the two.\<close>

datatype composite_operator = AND | OR

text \<open>A trigger is the two fields of \<open>TriggerBase\<close>, \<open>last_triggered\<close> and
  \<open>trigger_count\<close>, and the fields of its class:
  \<open>gap_ticks\<close>, \<open>gap_bps\<close>; \<open>drift_threshold_pct\<close>, \<open>last_position_value\<close>;
  \<open>direction\<close>, \<open>consecutive_bars\<close>, \<open>consecutive_count\<close>, \<open>last_price\<close>;
  \<open>time_delta\<close> (seconds); \<open>volatility_threshold\<close>, \<open>lookback_periods\<close>,
  \<open>price_history\<close>; \<open>triggers\<close>, \<open>operator\<close>.\<close>

datatype trigger_kind =
    GapFromCenterTrigger int "real option"
  | RangeInactiveTrigger
  | PercentDriftTrigger real "real option"
  | OneWayExitTrigger string int int "real option"
  | ElapsedTimeTrigger int
  | VolatilityTrigger real int "real list"
  | CompositeTrigger "trigger list" composite_operator
and trigger = Trigger "int option" nat trigger_kind

text \<open>\<open>np.diff\<close>, \<open>np.mean\<close> and \<open>np.std\<close> (population standard deviation).\<close>

definition np_diff :: "real list \<Rightarrow> real list" where
  "np_diff xs = map (\<lambda>(a, b). b - a) (zip xs (tl xs))"

definition np_mean :: "real list \<Rightarrow> real" where
  "np_mean xs = sum_list xs / real (length xs)"

definition np_std :: "real list \<Rightarrow> real" where
  "np_std xs = sqrt (np_mean (map (\<lambda>x. (x - np_mean xs) ^ 2) xs))"

text \<open>\<open>should_trigger\<close> returns the answer and the trigger with its private state
  updated.  \<open>np.std\<close> of no returns is NaN and the comparison with NaN is false.\<close>

fun should_trigger :: "trigger \<Rightarrow> trigger_state \<Rightarrow> py_error + (bool \<times> trigger)"
  and should_trigger_children ::
    "trigger list \<Rightarrow> trigger_state \<Rightarrow> py_error + (bool list \<times> trigger list)" where
  "should_trigger (Trigger lt cnt (GapFromCenterTrigger gap_ticks gap_bps)) st =
     (let current_price = st_current_price st;
          position_center = st_position_center st
      in case gap_bps of
           Some bps \<Rightarrow>
             if position_center = 0 then Inl ZeroDivisionError
             else let gap_pct = \<bar>current_price - position_center\<bar> / position_center
                  in Inr (gap_pct * 10000 \<ge> bps,
                          Trigger lt cnt (GapFromCenterTrigger gap_ticks gap_bps))
         | None \<Rightarrow>
             let price_diff = \<bar>current_price - position_center\<bar>
             in Inr (price_diff \<ge> real_of_int gap_ticks * 0.0001,
                     Trigger lt cnt (GapFromCenterTrigger gap_ticks gap_bps)))"
| "should_trigger (Trigger lt cnt RangeInactiveTrigger) st =
     Inr (st_current_price st < st_lower_price st \<or> st_current_price st > st_upper_price st,
          Trigger lt cnt RangeInactiveTrigger)"
| "should_trigger (Trigger lt cnt (PercentDriftTrigger drift_threshold_pct last_position_value)) st =
     (let current_position_value = st_position_value st
      in case last_position_value of
           None \<Rightarrow>
             Inr (False, Trigger lt cnt
                    (PercentDriftTrigger drift_threshold_pct (Some current_position_value)))
         | Some last_value \<Rightarrow>
             if last_value = 0 then Inl ZeroDivisionError
             else let drift_pct = \<bar>current_position_value - last_value\<bar> / last_value * 100
                  in if drift_pct \<ge> drift_threshold_pct
                     then Inr (True, Trigger lt cnt
                            (PercentDriftTrigger drift_threshold_pct (Some current_position_value)))
                     else Inr (False, Trigger lt cnt
                            (PercentDriftTrigger drift_threshold_pct last_position_value)))"
| "should_trigger (Trigger lt cnt
        (OneWayExitTrigger direction consecutive_bars consecutive_count last_price)) st =
     (let current_price = st_current_price st
      in case last_price of
           None \<Rightarrow>
             Inr (False, Trigger lt cnt
                    (OneWayExitTrigger direction consecutive_bars consecutive_count
                       (Some current_price)))
         | Some lp \<Rightarrow>
             let consecutive_count' =
                   (if direction = ''up'' \<and> current_price > lp then consecutive_count + 1
                    else if direction = ''down'' \<and> current_price < lp then consecutive_count + 1
                    else 0)
             in Inr (consecutive_count' \<ge> consecutive_bars,
                     Trigger lt cnt
                       (OneWayExitTrigger direction consecutive_bars consecutive_count'
                          (Some current_price))))"
| "should_trigger (Trigger lt cnt (ElapsedTimeTrigger time_delta)) st =
     (let current_timestamp = st_current_timestamp st
      in case lt of
           None \<Rightarrow> Inr (False, Trigger current_timestamp cnt (ElapsedTimeTrigger time_delta))
         | Some last_time \<Rightarrow>
             (case current_timestamp of
                None \<Rightarrow> Inl TypeError
              | Some now \<Rightarrow>
                  Inr (now - last_time \<ge> time_delta, Trigger lt cnt (ElapsedTimeTrigger time_delta))))"
| "should_trigger (Trigger lt cnt
        (VolatilityTrigger volatility_threshold lookback_periods price_history)) st =
     (let appended = price_history @ [st_current_price st];
          price_history' = (if int (length appended) > lookback_periods
                            then tl appended else appended);
          t' = Trigger lt cnt
                 (VolatilityTrigger volatility_threshold lookback_periods price_history')
      in if int (length price_history') < lookback_periods then Inr (False, t')
         else let returns = np_diff (map ln price_history');
                  volatility = np_std returns * sqrt 252
              in if returns = [] then Inr (False, t')
                 else Inr (volatility \<ge> volatility_threshold, t'))"
| "should_trigger (Trigger lt cnt (CompositeTrigger triggers operator)) st =
     py_bind (should_trigger_children triggers st) (\<lambda>(trigger_results, triggers').
       Inr (if operator = AND then list_all (\<lambda>r. r) trigger_results
            else list_ex (\<lambda>r. r) trigger_results,
            Trigger lt cnt (CompositeTrigger triggers' operator)))"
| "should_trigger_children [] st = Inr ([], [])"
| "should_trigger_children (t # ts) st =
     py_bind (should_trigger t st) (\<lambda>(r, t').
     py_bind (should_trigger_children ts st) (\<lambda>(rs, ts').
       Inr (r # rs, t' # ts')))"

subsection \<open>\<open>TriggerManager\<close>\<close>

text \<open>The dictionary \<open>triggers\<close> keeps its keys in insertion order; it is a list of
  pairs with distinct names.\<close>

type_synonym trigger_manager = "(string \<times> trigger) list"

fun add_trigger :: "trigger_manager \<Rightarrow> string \<Rightarrow> trigger \<Rightarrow> trigger_manager" where
  "add_trigger [] name t = [(name, t)]"
| "add_trigger ((n, x) # m) name t =
     (if n = name then (n, t) # m else (n, x) # add_trigger m name t)"

definition remove_trigger :: "trigger_manager \<Rightarrow> string \<Rightarrow> trigger_manager" where
  "remove_trigger m name = filter (\<lambda>(n, x). n \<noteq> name) m"

text \<open>What \<open>should_trigger_any\<close> does to a trigger that fired.\<close>

fun mark_triggered :: "trigger \<Rightarrow> int option \<Rightarrow> trigger" where
  "mark_triggered (Trigger lt cnt k) current_timestamp = Trigger current_timestamp (cnt + 1) k"

fun should_trigger_any_loop ::
    "trigger_manager \<Rightarrow> trigger_state \<Rightarrow> py_error + (string list \<times> trigger_manager)" where
  "should_trigger_any_loop [] st = Inr ([], [])"
| "should_trigger_any_loop ((name, t) # m) st =
     py_bind (should_trigger t st) (\<lambda>(r, t').
     py_bind (should_trigger_any_loop m st) (\<lambda>(triggered_names, m').
       if r then Inr (name # triggered_names,
                      (name, mark_triggered t' (st_current_timestamp st)) # m')
       else Inr (triggered_names, (name, t') # m')))"

definition should_trigger_any ::
    "trigger_manager \<Rightarrow> trigger_state \<Rightarrow> py_error + ((bool \<times> string list) \<times> trigger_manager)" where
  "should_trigger_any m st =
     py_bind (should_trigger_any_loop m st) (\<lambda>(triggered_names, m').
       Inr ((length triggered_names > 0, triggered_names), m'))"

section \<open>\<open>strategies/base.py\<close>: the policy state machine\<close>

text \<open>The state of \<open>BaseStrategy\<close>.  Its \<open>rebalance_count\<close> is named
  \<open>strategy_rebalance_count\<close> here, apart from the counter of the portfolio.  The
  price data is the list of bars, oldest first; \<open>price_data.index[-1]\<close> is the
  timestamp of the last bar.\<close>

record base_strategy =
  initialized :: bool
  current_ranges :: "(real \<times> real) list"
  current_liquidities :: "real list"
  last_update :: "int option"
  strategy_rebalance_count :: nat
  total_fees_earned :: real

text \<open>The two loops of \<open>_should_rebalance\<close>; each returns \<open>True\<close> at the first pair
  that moved by more than its threshold.\<close>

fun ranges_changed :: "(real \<times> real) list \<Rightarrow> (real \<times> real) list \<Rightarrow> py_error + bool" where
  "ranges_changed ((new_lower, new_upper) # ns) ((current_lower, current_upper) # cs) =
     (if current_lower = 0 then Inl ZeroDivisionError
      else if current_upper = 0 then Inl ZeroDivisionError
      else let lower_change = \<bar>new_lower - current_lower\<bar> / current_lower;
               upper_change = \<bar>new_upper - current_upper\<bar> / current_upper
           in if lower_change > 0.01 \<or> upper_change > 0.01 then Inr True
              else ranges_changed ns cs)"
| "ranges_changed ns cs = Inr False"

fun liquidities_changed :: "real list \<Rightarrow> real list \<Rightarrow> py_error + bool" where
  "liquidities_changed (new_liq # ns) (current_liq # cs) =
     (if current_liq = 0 then Inl ZeroDivisionError
      else let liq_change = \<bar>new_liq - current_liq\<bar> / current_liq
           in if liq_change > 0.05 then Inr True
              else liquidities_changed ns cs)"
| "liquidities_changed ns cs = Inr False"

definition should_rebalance_base ::
    "'a base_strategy_scheme \<Rightarrow> (real \<times> real) list \<Rightarrow> real list \<Rightarrow> py_error + bool" where
  "should_rebalance_base s new_ranges new_liquidities =
     (if length new_ranges \<noteq> length (current_ranges s) then Inr True
      else if length new_liquidities \<noteq> length (current_liquidities s) then Inr True
      else py_bind (ranges_changed new_ranges (current_ranges s)) (\<lambda>r.
             if r then Inr True
             else liquidities_changed new_liquidities (current_liquidities s)))"

text \<open>\<open>initialize\<close> and \<open>update\<close> of \<open>BaseStrategy\<close>; the abstract method
  \<open>calculate_range\<close> is the parameter \<open>calc\<close>.\<close>

definition initialize ::
    "('a base_strategy_scheme \<Rightarrow> bar list \<Rightarrow> real \<Rightarrow> real
        \<Rightarrow> py_error + ((real \<times> real) list \<times> real list))
     \<Rightarrow> 'a base_strategy_scheme \<Rightarrow> real \<Rightarrow> real \<Rightarrow> bar list
     \<Rightarrow> py_error + 'a base_strategy_scheme" where
  "initialize calc s initial_price portfolio_value price_data =
     (if initialized s then Inr s
      else py_bind (calc s price_data initial_price portfolio_value) (\<lambda>(ranges, liquidities).
             Inr (s\<lparr>current_ranges := ranges, current_liquidities := liquidities,
                    initialized := True\<rparr>)))"

definition update ::
    "('a base_strategy_scheme \<Rightarrow> bar list \<Rightarrow> real \<Rightarrow> real
        \<Rightarrow> py_error + ((real \<times> real) list \<times> real list))
     \<Rightarrow> 'a base_strategy_scheme \<Rightarrow> bar list \<Rightarrow> real \<Rightarrow> real \<Rightarrow> bool
     \<Rightarrow> py_error + (bool \<times> 'a base_strategy_scheme)" where
  "update calc s price_data current_price portfolio_value force_update =
     (if \<not> initialized s then
        py_bind (initialize calc s current_price portfolio_value price_data) (\<lambda>s'.
          Inr (True, s'))
      else
        py_bind (calc s price_data current_price portfolio_value)
          (\<lambda>(new_ranges, new_liquidities).
        py_bind (if force_update then Inr True
                 else should_rebalance_base s new_ranges new_liquidities) (\<lambda>needed.
          if needed then
            Inr (True,
                 s\<lparr>current_ranges := new_ranges, current_liquidities := new_liquidities,
                   strategy_rebalance_count := strategy_rebalance_count s + 1,
                   last_update := (if length price_data > 0
                                   then Some (bar_timestamp (last price_data)) else None)\<rparr>)
          else Inr (False, s))))"

section \<open>\<open>strategies/classic.py\<close>: the Classic policy\<close>

record classic_strategy = base_strategy +
  width_mode :: string
  width_value :: real
  placement_mode :: string
  curve :: curve
  max_positions :: int
  recenter_threshold :: real
  trigger_manager :: trigger_manager

text \<open>\<open>_setup_triggers\<close> with the parameters \<open>gap_bps\<close>, \<open>drift_threshold_pct\<close> and
  \<open>time_threshold_hours\<close>.\<close>

definition setup_triggers :: "real \<Rightarrow> real \<Rightarrow> int \<Rightarrow> trigger_manager" where
  "setup_triggers gap_bps drift_threshold_pct time_threshold_hours =
     add_trigger
       (add_trigger
          (add_trigger
             (add_trigger [] ''gap_from_center''
                (Trigger None 0 (GapFromCenterTrigger 100 (Some gap_bps))))
             ''range_inactive'' (Trigger None 0 RangeInactiveTrigger))
          ''percent_drift'' (Trigger None 0 (PercentDriftTrigger drift_threshold_pct None)))
       ''time_elapsed'' (Trigger None 0 (ElapsedTimeTrigger (time_threshold_hours * 3600)))"

text \<open>\<open>ClassicStrategy.__init__\<close>: the three required parameters, then the optional
  ones, whose defaults \<open>ClassicStrategy_default\<close> fills in.\<close>

definition ClassicStrategy ::
    "string \<Rightarrow> real \<Rightarrow> string \<Rightarrow> curve \<Rightarrow> int \<Rightarrow> real \<Rightarrow> real \<Rightarrow> real \<Rightarrow> int
     \<Rightarrow> classic_strategy" where
  "ClassicStrategy wm wv pm cv maxp recenter gap_bps drift_threshold_pct time_threshold_hours =
     \<lparr>initialized = False, current_ranges = [], current_liquidities = [],
      last_update = None, strategy_rebalance_count = 0, total_fees_earned = 0,
      width_mode = wm, width_value = wv, placement_mode = pm, curve = cv,
      max_positions = maxp, recenter_threshold = recenter,
      trigger_manager = setup_triggers gap_bps drift_threshold_pct time_threshold_hours\<rparr>"

definition ClassicStrategy_default :: "string \<Rightarrow> real \<Rightarrow> string \<Rightarrow> classic_strategy" where
  "ClassicStrategy_default wm wv pm =
     ClassicStrategy wm wv pm (default_curve UniformCurve) 1 0.05 100 5.0 24"

definition calculate_width :: "classic_strategy \<Rightarrow> real \<Rightarrow> py_error + real" where
  "calculate_width s current_price =
     (if width_mode s = ''percent'' then Inr (width_value s)
      else if width_mode s = ''multiplier'' then Inr (5.0 * width_value s)
      else if width_mode s = ''static_ticks'' then
        (if current_price = 0 then Inl ZeroDivisionError
         else Inr ((width_value s * 0.0001 / current_price) * 100))
      else Inl ValueError)"

definition calculate_center_price :: "classic_strategy \<Rightarrow> bar list \<Rightarrow> real \<Rightarrow> py_error + real" where
  "calculate_center_price s price_data current_price =
     (if placement_mode s = ''center'' then Inr current_price
      else if placement_mode s = ''recenter'' then
        (case current_ranges s of
           (current_lower, current_upper) # _ \<Rightarrow>
             if current_price < current_lower \<or> current_price > current_upper
             then Inr current_price
             else Inr ((current_lower + current_upper) / 2)
         | [] \<Rightarrow> Inr current_price)
      else if placement_mode s = ''dynamic'' then
        (if length price_data \<ge> 20
         then Inr (sum_list (map bar_close (drop (length price_data - 20) price_data)) / 20)
         else Inr current_price)
      else Inl ValueError)"

definition calculate_range ::
    "classic_strategy \<Rightarrow> bar list \<Rightarrow> real \<Rightarrow> real
     \<Rightarrow> py_error + ((real \<times> real) list \<times> real list)" where
  "calculate_range s price_data current_price portfolio_value =
     py_bind (calculate_width s current_price) (\<lambda>width_pct.
     py_bind (calculate_center_price s price_data current_price) (\<lambda>center_price.
     py_bind (generate_distribution (curve s) center_price width_pct (portfolio_value * 0.95))
       (\<lambda>distribution.
          if max_positions s = 1 then
            (case distribution of
               (lower, upper, liq) # _ \<Rightarrow>
                 Inr ([(lower, upper)], [liq])
             | [] \<Rightarrow>
                 Inr ([(center_price * (1 - width_pct / 200),
                        center_price * (1 + width_pct / 200))],
                      [portfolio_value * 0.95 * 0.001]))
          else
            Inr (map (\<lambda>(lower, upper, _). (lower, upper)) distribution,
                 map (\<lambda>(_, _, liq). liq) distribution))))"

text \<open>\<open>should_rebalance\<close> evaluates the triggers, which changes their private state,
  so it returns the strategy as well.\<close>

definition should_rebalance ::
    "classic_strategy \<Rightarrow> bar list \<Rightarrow> real \<Rightarrow> real \<Rightarrow> py_error + (bool \<times> classic_strategy)" where
  "should_rebalance s price_data current_price portfolio_value =
     (if \<not> initialized s then Inr (True, s)
      else
        let current_state =
              \<lparr>st_current_price = current_price,
               st_position_center =
                 (case current_ranges s of
                    (lo, up) # _ \<Rightarrow> (lo + up) / 2 | [] \<Rightarrow> current_price),
               st_lower_price = (case current_ranges s of (lo, up) # _ \<Rightarrow> lo | [] \<Rightarrow> 0),
               st_upper_price = (case current_ranges s of (lo, up) # _ \<Rightarrow> up | [] \<Rightarrow> 0),
               st_position_value = portfolio_value,
               st_current_timestamp =
                 (if length price_data > 0 then Some (bar_timestamp (last price_data))
                  else None)\<rparr>
        in py_bind (should_trigger_any (trigger_manager s) current_state)
             (\<lambda>((fired, triggered_names), m').
                Inr (fired, s\<lparr>trigger_manager := m'\<rparr>)))"

text \<open>\<open>ClassicStrategy.update\<close>; with \<open>force_update\<close> the triggers are not evaluated.\<close>

definition classic_update ::
    "classic_strategy \<Rightarrow> bar list \<Rightarrow> real \<Rightarrow> real \<Rightarrow> bool
     \<Rightarrow> py_error + (bool \<times> classic_strategy)" where
  "classic_update s price_data current_price portfolio_value force_update =
     py_bind (if force_update then Inr (True, s)
              else should_rebalance s price_data current_price portfolio_value)
       (\<lambda>(go, s').
          if go then update calculate_range s' price_data current_price portfolio_value force_update
          else Inr (False, s'))"

section \<open>\<open>backtester.py\<close>: the bar loop\<close>

text \<open>The engine with the Classic policy.  \<open>_calculate_results\<close>, which only reads the
  recorded curves, is not part of the model.\<close>

record backtester =
  strategy :: classic_strategy
  bt_portfolio :: portfolio
  hodl_portfolio :: baseline_portfolio
  single_asset_portfolio :: baseline_portfolio
  bt_initial_cash :: real
  liq_share :: real

definition Backtester ::
    "classic_strategy \<Rightarrow> real \<Rightarrow> int \<Rightarrow> int \<Rightarrow> real \<Rightarrow> real \<Rightarrow> backtester" where
  "Backtester strat initial fee slippage gas share =
     \<lparr>strategy = strat,
      bt_portfolio = Portfolio initial fee slippage gas,
      hodl_portfolio = BaselinePortfolio initial ''hodl_50_50'',
      single_asset_portfolio = BaselinePortfolio initial ''single_asset'',
      bt_initial_cash = initial, liq_share = share\<rparr>"

definition update_baseline_portfolios :: "backtester \<Rightarrow> real \<Rightarrow> nat \<Rightarrow> py_error + backtester" where
  "update_baseline_portfolios bt current_price bar_index =
     (if bar_index mod 24 = 0 then
        py_bind (rebalance_to_50_50 (hodl_portfolio bt) current_price) (\<lambda>h.
          Inr (bt\<lparr>hodl_portfolio := h\<rparr>))
      else Inr bt)"

text \<open>The body of the main loop for bar \<open>i\<close>.\<close>

definition run_bar :: "backtester \<Rightarrow> bar list \<Rightarrow> nat \<Rightarrow> py_error + backtester" where
  "run_bar bt price_data i =
     (let row = price_data ! i;
          current_price = bar_close row;
          current_quote_volume = bar_quote_volume row;
          history = take (i + 1) price_data
      in py_bind (update_baseline_portfolios bt current_price i) (\<lambda>bt1.
         py_bind (get_total_value (bt_portfolio bt1) current_price) (\<lambda>value.
         py_bind (classic_update (strategy bt1) history current_price value False)
           (\<lambda>(should, strat).
         py_bind
           (if should then
              py_bind (get_total_value (bt_portfolio bt1) current_price) (\<lambda>value'.
              py_bind (calculate_range strat history current_price value')
                (\<lambda>(ranges, liquidities).
                   case rebalance_positions (bt_portfolio bt1) ranges liquidities current_price of
                     (Inl e, p) \<Rightarrow> Inl e
                   | (Inr rebalance_cost, p) \<Rightarrow> Inr p))
            else Inr (bt_portfolio bt1)) (\<lambda>p1.
         py_bind
           (if current_quote_volume > 0 then add_fees_to_positions p1 [row] (liq_share bt1)
            else Inr p1) (\<lambda>p2.
         py_bind (record_equity_point p2 (bar_timestamp row) current_price) (\<lambda>p3.
           Inr (bt1\<lparr>strategy := strat, bt_portfolio := p3,
                  hodl_portfolio :=
                    baseline_record_equity_point (hodl_portfolio bt1)
                      (bar_timestamp row) current_price,
                  single_asset_portfolio :=
                    baseline_record_equity_point (single_asset_portfolio bt1)
                      (bar_timestamp row) current_price\<rparr>))))))))"

fun run_loop :: "backtester \<Rightarrow> bar list \<Rightarrow> nat list \<Rightarrow> py_error + backtester" where
  "run_loop bt price_data [] = Inr bt"
| "run_loop bt price_data (i # is) =
     py_bind (run_bar bt price_data i) (\<lambda>bt'. run_loop bt' price_data is)"

definition run :: "backtester \<Rightarrow> bar list \<Rightarrow> py_error + backtester" where
  "run bt price_data =
     (if price_data = [] then Inl ValueError
      else
        let initial_price = bar_close (hd price_data)
        in py_bind (initialize_position (hodl_portfolio bt) initial_price) (\<lambda>h.
           py_bind (initialize_position (single_asset_portfolio bt) initial_price) (\<lambda>sa.
           py_bind (initialize calculate_range (strategy bt) initial_price
                      (bt_initial_cash bt) price_data) (\<lambda>strat.
             run_loop (bt\<lparr>hodl_portfolio := h, single_asset_portfolio := sa,
                           strategy := strat\<rparr>)
               price_data [0..<length price_data]))))"

section \<open>Inputs of the worked scenarios\<close>

text \<open>The Classic policy of the scenario: width mode \<open>percent\<close> with the value 10,
  placement mode \<open>center\<close>, every optional parameter at its default.  A bar is given by
  its timestamp and its close; the other prices equal the close, the volume is one
  unit of the base asset.\<close>

definition scenario_strategy :: classic_strategy where
  "scenario_strategy = ClassicStrategy_default ''percent'' 10 ''center''"

definition scenario_bar :: "int \<Rightarrow> real \<Rightarrow> bar" where
  "scenario_bar ts c =
     \<lparr>bar_timestamp = ts, bar_open = c, bar_high = c, bar_low = c, bar_close = c,
      bar_volume = 1, bar_quote_volume = c\<rparr>"

section \<open>Properties of the fixed-point conversions\<close>

text \<open>
  Claim C7.  For every price \<open>p\<close> between \<open>1e-6\<close> and \<open>1e9\<close>, the conversion
  \<open>price_to_sqrt_price_x96\<close> returns a fixed-point value, and converting that value back
  with \<open>sqrt_price_x96_to_price\<close> gives a price whose relative error against \<open>p\<close> is
  below \<open>1e-6\<close>.
\<close>

theorem sqrt_price_round_trip:
  assumes lo: "1 / 10 ^ 6 \<le> p" and hi: "p \<le> 10 ^ 9"
  shows "\<exists>x. price_to_sqrt_price_x96 p = Inr x
             \<and> \<bar>sqrt_price_x96_to_price x - p\<bar> / p < 1 / 10 ^ 6"
proof -
  define Q :: real where "Q = real_of_int Q96"
  define s where "s = sqrt p"
  define x where "x = \<lfloor>s * Q\<rfloor>"
  define y where "y = real_of_int x / Q"
  have Qpos: "0 < Q" and Qval: "Q = 2 ^ 96" by (simp_all add: Q_def Q96_def)
  have ppos: "0 < p" using lo by (smt (verit) divide_pos_pos zero_less_power)
  have "sqrt ((1 / 10 ^ 3) ^ 2) \<le> sqrt p"
    using lo by (intro real_sqrt_le_mono) (simp add: power_divide)
  then have s_lo: "1 / 10 ^ 3 \<le> s" by (simp add: s_def)
  then have spos: "0 < s" by (smt (verit) divide_pos_pos zero_less_power)
  have p_eq: "p = s * s" using ppos by (simp add: s_def)
  have conv: "price_to_sqrt_price_x96 p = Inr x"
    using ppos spos Qpos by (simp add: price_to_sqrt_price_x96_def py_int_def x_def s_def Q_def)
  have "real_of_int x \<le> s * Q" by (simp add: x_def)
  then have y_le: "y \<le> s" using Qpos by (simp add: y_def field_simps)
  have "s * Q < real_of_int x + 1" unfolding x_def by linarith
  then have "s < (real_of_int x + 1) / Q" using Qpos by (simp add: pos_less_divide_eq)
  then have y_gt: "s - 1 / Q < y" by (simp add: y_def add_divide_distrib)
  have "0 \<le> x" using spos Qpos by (simp add: x_def)
  then have y_nn: "0 \<le> y" using Qpos by (simp add: y_def)
  have rt: "sqrt_price_x96_to_price x = y * y"
    by (simp add: sqrt_price_x96_to_price_def y_def Q_def power2_eq_square)
  have diff: "p - y * y = (s - y) * (s + y)" by (simp add: p_eq algebra_simps)
  have d_nn: "0 \<le> p - y * y" unfolding diff using y_le y_nn spos by simp
  have "(s - y) * (s + y) \<le> (1 / Q) * (s + y)"
    using y_gt y_nn spos by (intro mult_right_mono) simp_all
  also have "\<dots> \<le> (1 / Q) * (2 * s)"
    using y_le Qpos by (intro mult_left_mono) simp_all
  finally have d_le: "p - y * y \<le> 2 * s / Q" unfolding diff by simp
  have "\<bar>sqrt_price_x96_to_price x - p\<bar> / p = (p - y * y) / p"
    using d_nn by (simp add: rt)
  also have "\<dots> \<le> (2 * s / Q) / p"
    using d_le ppos by (intro divide_right_mono) simp_all
  also have "\<dots> = 2 / (Q * s)" using spos by (simp add: p_eq)
  also have "\<dots> \<le> 2 / (Q * (1 / 10 ^ 3))"
    using s_lo Qpos by (intro divide_left_mono mult_left_mono) simp_all
  also have "\<dots> < 1 / 10 ^ 6" by (simp add: Qval)
  finally show ?thesis using conv by blast
qed

theorem sqrt_price_round_trip_witness:
  "1 / 10 ^ 6 \<le> (4::real) \<and> (4::real) \<le> 10 ^ 9 \<and> (\<exists>x. price_to_sqrt_price_x96 4 = Inr x
             \<and> \<bar>sqrt_price_x96_to_price x - 4\<bar> / 4 < 1 / 10 ^ 6)"
  using sqrt_price_round_trip [of 4] by simp

subsection \<open>The round trip under rounding\<close>

lemma conversions_without_rounding:
  "price_to_sqrt_price_x96_fl (\<lambda>x. x) p = price_to_sqrt_price_x96 p"
  "sqrt_price_x96_to_price_fl (\<lambda>x. x) x = sqrt_price_x96_to_price x"
  by (simp_all add: price_to_sqrt_price_x96_fl_def price_to_sqrt_price_x96_def
        sqrt_price_x96_to_price_fl_def sqrt_price_x96_to_price_def)

lemma rnd_bounds:
  fixes rnd :: "real \<Rightarrow> real" and d :: real
  assumes "\<forall>x. \<bar>rnd x - x\<bar> \<le> \<bar>x\<bar> * d" and "0 \<le> x"
  shows "x * (1 - d) \<le> rnd x" and "rnd x \<le> x * (1 + d)"
proof -
  have "\<bar>rnd x - x\<bar> \<le> x * d" using assms by (metis abs_of_nonneg)
  then show "x * (1 - d) \<le> rnd x" and "rnd x \<le> x * (1 + d)"
    by (simp_all add: algebra_simps abs_le_iff)
qed

text \<open>The bound of the round trip survives rounding: it holds for every \<open>rnd\<close> whose
  relative error is at most \<open>2^-52\<close>, the unit in the last place of a double.\<close>

lemma sqrt_price_round_trip_rounded:
  fixes rnd :: "real \<Rightarrow> real"
  assumes rnd: "\<forall>x. \<bar>rnd x - x\<bar> \<le> \<bar>x\<bar> * (1 / 2 ^ 52)"
    and lo: "1 / 10 ^ 6 \<le> p" and hi: "p \<le> 10 ^ 9"
  shows "\<exists>x. price_to_sqrt_price_x96_fl rnd p = Inr x
             \<and> \<bar>sqrt_price_x96_to_price_fl rnd x - p\<bar> / p < 1 / 10 ^ 6"
proof -
  define Q :: real where "Q = real_of_int Q96"
  define d :: real where "d = 1 / 2 ^ 52"
  define U where "U = 1 + d"
  define L where "L = 1 - d"
  define K where "K = L * L - 1000 / Q"
  define s where "s = sqrt p"
  define s1 where "s1 = rnd s"
  define t where "t = rnd (s1 * Q)"
  define x where "x = \<lfloor>t\<rfloor>"
  define y where "y = real_of_int x / Q"
  define q where "q = rnd y"
  define z where "z = q * q"
  define r where "r = rnd z"
  have Qval: "Q = 2 ^ 96" by (simp add: Q_def Q96_def)
  have Qpos: "0 < Q" by (simp add: Qval)
  have num: "0 < L" "0 < U" "0 < K" "1 \<le> L * L * Q / 1000"
    by (simp_all add: K_def L_def U_def d_def Qval)
  have up_num: "U * U * U * (U * U * U) * U - 1 < 1 / 10 ^ 6"
    by (simp add: U_def d_def)
  have lo_num: "1 - K * L * (K * L) * L < 1 / 10 ^ 6"
    by (simp add: K_def L_def d_def Qval)
  note rb = rnd_bounds [OF rnd [folded d_def], folded L_def U_def]
  have ppos: "0 < p" using lo by (smt (verit) divide_pos_pos zero_less_power)
  have "sqrt ((1 / 10 ^ 3) ^ 2) \<le> sqrt p"
    using lo by (intro real_sqrt_le_mono) (simp add: power_divide)
  then have s_lo: "1 / 1000 \<le> s" by (simp add: s_def)
  then have spos: "0 < s" by simp
  have p_eq: "p = s * s" using ppos by (simp add: s_def)
  \<comment> \<open>the rounded square root\<close>
  have s1_lo: "s * L \<le> s1" and s1_up: "s1 \<le> s * U"
    unfolding s1_def using rb [of s] spos by simp_all
  have s1pos: "0 < s1" using s1_lo spos num(1) by (smt (verit) mult_pos_pos)
  \<comment> \<open>the rounded product\<close>
  have t_lo: "s1 * Q * L \<le> t" and t_up: "t \<le> s1 * Q * U"
    unfolding t_def using rb [of "s1 * Q"] s1pos Qpos by simp_all
  have "s * L * Q * L \<le> s1 * Q * L"
    using s1_lo Qpos num(1) by (simp add: mult_right_mono)
  then have t_lo': "s * (L * L * Q) \<le> t" using t_lo by (simp add: mult_ac)
  have "s1 * Q * U \<le> s * U * Q * U"
    using s1_up Qpos num(2) by (simp add: mult_right_mono)
  then have t_up': "t \<le> s * (U * U * Q)" using t_up by (simp add: mult_ac)
  have "1 / 1000 * (L * L * Q) \<le> s * (L * L * Q)"
    using s_lo num(1) Qpos by (intro mult_right_mono) simp_all
  then have t1: "1 \<le> t" using num(4) t_lo' by simp
  have conv: "price_to_sqrt_price_x96_fl rnd p = Inr x"
    using ppos t1
    by (simp add: price_to_sqrt_price_x96_fl_def py_int_def x_def t_def s1_def s_def Q_def)
  \<comment> \<open>the truncation\<close>
  have x_le: "real_of_int x \<le> t" by (simp add: x_def)
  have x_gt: "t - 1 < real_of_int x" unfolding x_def by linarith
  have xnn: "0 \<le> real_of_int x" using t1 x_gt by simp
  have ynn: "0 \<le> y" using xnn Qpos by (simp add: y_def)
  have "y \<le> t / Q"
    unfolding y_def by (rule divide_right_mono [OF x_le less_imp_le [OF Qpos]])
  also have "\<dots> \<le> s * (U * U * Q) / Q"
    by (rule divide_right_mono [OF t_up' less_imp_le [OF Qpos]])
  finally have y_up: "y \<le> s * (U * U)" using Qpos by simp
  have "1 / Q \<le> s * (1000 / Q)" using s_lo Qpos by (simp add: field_simps)
  then have "s * K \<le> s * (L * L * Q) / Q - 1 / Q"
    using Qpos by (simp add: K_def algebra_simps)
  also have "\<dots> \<le> t / Q - 1 / Q"
    using divide_right_mono [OF t_lo' less_imp_le [OF Qpos]] by simp
  also have "\<dots> = (t - 1) / Q" by (simp add: diff_divide_distrib)
  also have "\<dots> \<le> y"
    unfolding y_def by (rule divide_right_mono [OF less_imp_le [OF x_gt] less_imp_le [OF Qpos]])
  finally have y_lo: "s * K \<le> y" .
  \<comment> \<open>the rounded quotient and the rounded square\<close>
  have q_lo: "y * L \<le> q" and q_up: "q \<le> y * U"
    unfolding q_def using rb [of y] ynn by simp_all
  have skl: "0 \<le> s * K * L" using spos num by simp
  have "s * K * L \<le> y * L" using y_lo num(1) by (simp add: mult_right_mono)
  then have q_lo': "s * K * L \<le> q" using q_lo by simp
  have "y * U \<le> s * (U * U) * U" using y_up num(2) by (simp add: mult_right_mono)
  then have q_up': "q \<le> s * (U * U) * U" using q_up by simp
  have qnn: "0 \<le> q" using skl q_lo' by simp
  have z_lo: "s * K * L * (s * K * L) \<le> z"
    unfolding z_def using q_lo' skl by (intro mult_mono) simp_all
  have z_up: "z \<le> s * (U * U) * U * (s * (U * U) * U)"
    unfolding z_def using q_up' qnn by (intro mult_mono) simp_all
  have znn: "0 \<le> z" using qnn by (simp add: z_def)
  have r_lo: "z * L \<le> r" and r_up: "r \<le> z * U"
    unfolding r_def using rb [of z] znn by simp_all
  have "s * K * L * (s * K * L) * L \<le> z * L" using z_lo num(1) by (simp add: mult_right_mono)
  then have "p * (K * L * (K * L) * L) \<le> r" using r_lo by (simp add: p_eq mult_ac)
  then have below: "p - r \<le> p * (1 - K * L * (K * L) * L)" by (simp add: algebra_simps)
  have "z * U \<le> s * (U * U) * U * (s * (U * U) * U) * U"
    using z_up num(2) by (simp add: mult_right_mono)
  then have "r \<le> p * (U * U * U * (U * U * U) * U)" using r_up by (simp add: p_eq mult_ac)
  then have above: "r - p \<le> p * (U * U * U * (U * U * U) * U - 1)" by (simp add: algebra_simps)
  have "p * (1 - K * L * (K * L) * L) < p * (1 / 10 ^ 6)"
    using lo_num ppos by (intro mult_strict_left_mono)
  moreover have "p * (U * U * U * (U * U * U) * U - 1) < p * (1 / 10 ^ 6)"
    using up_num ppos by (intro mult_strict_left_mono)
  ultimately have "\<bar>r - p\<bar> < p * (1 / 10 ^ 6)" using below above by linarith
  then have "\<bar>r - p\<bar> / p < 1 / 10 ^ 6" using ppos by (simp add: field_simps)
  moreover have "sqrt_price_x96_to_price_fl rnd x = r"
    by (simp add: sqrt_price_x96_to_price_fl_def r_def z_def q_def y_def Q_def power2_eq_square)
  ultimately show ?thesis using conv by auto
qed

section \<open>Floats within range\<close>

text \<open>An exact result well below \<open>float_limit\<close> is a finite float, and so are the
  conversion of an \<open>int\<close> and the quotient of two \<open>int\<close>s of that size.\<close>

lemma float_limit_ge: "2 ^ 1023 \<le> float_limit"
  by (simp add: float_limit_def)

lemma to_float_Fin: "\<bar>x\<bar> < float_limit \<Longrightarrow> to_float x = Fin x"
  by (auto simp: to_float_def)

lemma to_float_small: "\<bar>x\<bar> \<le> 2 ^ 1000 \<Longrightarrow> to_float x = Fin x"
proof (rule to_float_Fin)
  assume "\<bar>x\<bar> \<le> 2 ^ 1000"
  also have "(2::real) ^ 1000 < 2 ^ 1023" by simp
  also note float_limit_ge
  finally show "\<bar>x\<bar> < float_limit" .
qed

lemma int_to_float_small:
  "\<bar>real_of_int i\<bar> \<le> 2 ^ 1000 \<Longrightarrow> int_to_float i = Inr (Fin (real_of_int i))"
proof -
  assume "\<bar>real_of_int i\<bar> \<le> 2 ^ 1000"
  also have "(2::real) ^ 1000 < 2 ^ 1023" by simp
  also note float_limit_ge
  finally show ?thesis by (simp add: int_to_float_def)
qed

lemma int_truediv_small:
  "j \<noteq> 0 \<Longrightarrow> \<bar>real_of_int i / real_of_int j\<bar> \<le> 2 ^ 1000
     \<Longrightarrow> int_truediv i j = Inr (Fin (real_of_int i / real_of_int j))"
proof -
  assume j: "j \<noteq> 0"
  assume "\<bar>real_of_int i / real_of_int j\<bar> \<le> 2 ^ 1000"
  also have "(2::real) ^ 1000 < 2 ^ 1023" by simp
  also note float_limit_ge
  finally show ?thesis using j by (simp add: int_truediv_def)
qed

lemma py_int_nonpos: "y \<le> 0 \<Longrightarrow> py_int y \<le> 0"
  by (auto simp: py_int_def ceiling_le_zero)

section \<open>Degenerate inputs of the amount and liquidity conversions\<close>

text \<open>
  Claim C8 says that a zero-width range or a negative liquidity makes the conversion
  functions abort.  The code has no assertion: each function returns zero at once when
  the two bounds are equal, and a negative liquidity goes through the formula like any
  other.  Here \<open>get_amount0_for_liquidity\<close> and \<open>get_liquidity_for_amount1\<close> return zero
  on the zero-width range \<open>[Q96, Q96]\<close>, and \<open>get_amount1_for_liquidity\<close> returns \<open>-5\<close> for
  the liquidity \<open>-5\<close> on the range \<open>[Q96, 2 * Q96]\<close>.
\<close>

theorem degenerate_inputs_do_not_abort:
  "get_amount0_for_liquidity Q96 Q96 1000 = Inr 0
   \<and> get_liquidity_for_amount1 Q96 Q96 1000 = Inr 0
   \<and> get_amount1_for_liquidity Q96 (2 * Q96) (- 5) = Inr (- 5)"
  by (simp add: get_amount0_for_liquidity_def get_liquidity_for_amount1_def
        get_amount1_for_liquidity_def Q96_def py_int_def py_bind_def int_truediv_def
        int_to_float_def float_limit_def to_float_def)

text \<open>The only way in which a liquidity makes the conversions abort is its size, not
  its sign: an \<open>int\<close> beyond the range of floats cannot be converted, and a product
  that is infinite cannot be turned into an \<open>int\<close>.  Both raise \<open>OverflowError\<close>.\<close>

lemma huge_liquidity_overflows:
  "get_amount1_for_liquidity Q96 (2 * Q96) (- (10 ^ 400)) = Inl OverflowError
   \<and> get_amount0_for_liquidity Q96 (2 * Q96) (- (10 ^ 400)) = Inl OverflowError
   \<and> get_amount1_for_liquidity (2 ^ 96) (10 ^ 10 * 2 ^ 96) (- (10 ^ 300)) = Inl OverflowError"
  by (simp add: get_amount0_for_liquidity_def 
        get_amount1_for_liquidity_def Q96_def py_int_def py_bind_def int_truediv_def
        int_to_float_def float_limit_def to_float_def)

text \<open>
  Claim C8, amended.  On a zero-width range (equal bounds) each of the four conversion
  functions returns zero, whatever the liquidity or amount.  With a negative liquidity
  of magnitude at most \<open>2 ^ 256\<close> on a range with different bounds between 1 and
  \<open>2 ^ 256\<close>, \<open>get_amount0_for_liquidity\<close> and \<open>get_amount1_for_liquidity\<close> return a
  result, which is not positive; nothing aborts.
\<close>

theorem degenerate_inputs_return:
  "get_amount0_for_liquidity a a l = Inr 0
   \<and> get_amount1_for_liquidity a a l = Inr 0
   \<and> get_liquidity_for_amount0 a a x = Inr 0
   \<and> get_liquidity_for_amount1 a a x = Inr 0
   \<and> (l < 0 \<and> - (2 ^ 256) \<le> l \<and> 0 < a \<and> a < b \<and> b \<le> 2 ^ 256 \<longrightarrow>
        (\<exists>r. get_amount0_for_liquidity a b l = Inr r \<and> r \<le> 0)
        \<and> (\<exists>r. get_amount1_for_liquidity a b l = Inr r \<and> r \<le> 0))"
proof -
  have zero: "get_amount0_for_liquidity a a l = Inr 0" "get_amount1_for_liquidity a a l = Inr 0"
      "get_liquidity_for_amount0 a a x = Inr 0" "get_liquidity_for_amount1 a a x = Inr 0"
    by (simp_all add: get_amount0_for_liquidity_def get_amount1_for_liquidity_def
          get_liquidity_for_amount0_def get_liquidity_for_amount1_def)
  have neg: "(\<exists>r. get_amount0_for_liquidity a b l = Inr r \<and> r \<le> 0)
        \<and> (\<exists>r. get_amount1_for_liquidity a b l = Inr r \<and> r \<le> 0)"
    if h: "l < 0" "- (2 ^ 256) \<le> l" "0 < a" "a < b" "b \<le> 2 ^ 256"
  proof -
    define q where "q = real_of_int Q96"
    define d where "d = real_of_int (b - a) / q"
    define fa where "fa = real_of_int a / q"
    define fb where "fb = real_of_int b / q"
    define L where "L = real_of_int l"
    have q: "1 \<le> q" "q \<noteq> 0" "q = 2 ^ 96" by (simp_all add: q_def Q96_def)
    have Q: "Q96 \<noteq> 0" by (simp add: Q96_def)
    have rb: "real_of_int b \<le> 2 ^ 256" "real_of_int a \<le> 2 ^ 256" "1 \<le> real_of_int a"
        "1 \<le> real_of_int b" "1 \<le> real_of_int (b - a)" "real_of_int (b - a) \<le> 2 ^ 256"
      using h by (simp_all add: of_int_le_iff [of _ "2 ^ 256", simplified]
                      of_int_le_iff [of 1, simplified])
    have L: "L \<le> 0" "\<bar>L\<bar> \<le> 2 ^ 256"
      using h by (simp_all add: L_def abs_le_iff of_int_le_iff [of "- (2 ^ 256)", simplified])
    have d: "0 < d" "\<bar>d\<bar> \<le> 2 ^ 256"
      using rb q by (simp_all add: d_def field_simps)
    have fa: "1 / q \<le> fa" "fa \<le> 2 ^ 256" "0 < fa"
      using rb q by (simp_all add: fa_def field_simps)
    have fb: "1 / q \<le> fb" "fb \<le> 2 ^ 256" "0 < fb"
      using rb q by (simp_all add: fb_def field_simps)
    have num: "\<bar>L * d\<bar> \<le> 2 ^ 512" "L * d \<le> 0"
    proof -
      have "\<bar>L\<bar> * \<bar>d\<bar> \<le> 2 ^ 256 * 2 ^ 256"
        by (rule mult_mono [OF L(2) d(2)]) simp_all
      then show "\<bar>L * d\<bar> \<le> 2 ^ 512" by (simp add: abs_mult)
      show "L * d \<le> 0" by (rule mult_nonpos_nonneg [OF L(1) less_imp_le [OF d(1)]])
    qed
    have den: "1 / q * (1 / q) \<le> fa * fb" "fa * fb \<le> 2 ^ 512" "0 < fa * fb"
    proof -
      show "1 / q * (1 / q) \<le> fa * fb"
        by (rule mult_mono [OF fa(1) fb(1)]) (use fa q in simp_all)
      have "fa * fb \<le> 2 ^ 256 * 2 ^ 256"
        by (rule mult_mono [OF fa(2) fb(2)]) (use fb in simp_all)
      then show "fa * fb \<le> 2 ^ 512" by simp
      show "0 < fa * fb" using fa fb by simp
    qed
    have quo: "\<bar>L * d / (fa * fb)\<bar> \<le> 2 ^ 1000" "L * d / (fa * fb) \<le> 0"
    proof -
      have "\<bar>L * d\<bar> / (fa * fb) \<le> 2 ^ 512 / (1 / q * (1 / q))"
        by (rule frac_le [OF _ num(1) _ den(1)]) (use q in simp_all)
      also have "\<dots> \<le> 2 ^ 1000" by (simp add: q)
      finally have "\<bar>L * d\<bar> / (fa * fb) \<le> 2 ^ 1000" .
      moreover have "\<bar>L * d / (fa * fb)\<bar> = \<bar>L * d\<bar> / (fa * fb)"
        unfolding abs_divide abs_of_pos [OF den(3)] ..
      ultimately show "\<bar>L * d / (fa * fb)\<bar> \<le> 2 ^ 1000" by (simp only:)
      show "L * d / (fa * fb) \<le> 0" by (rule divide_nonpos_pos [OF num(2) den(3)])
    qed
    have e_d: "int_truediv (b - a) Q96 = Inr (Fin d)"
      unfolding d_def q_def
      by (rule int_truediv_small [OF Q]) (use d in \<open>simp add: d_def q_def\<close>)
    have e_fa: "int_truediv a Q96 = Inr (Fin fa)"
      unfolding fa_def q_def
      by (rule int_truediv_small [OF Q]) (use fa in \<open>simp add: fa_def q_def\<close>)
    have e_fb: "int_truediv b Q96 = Inr (Fin fb)"
      unfolding fb_def q_def
      by (rule int_truediv_small [OF Q]) (use fb in \<open>simp add: fb_def q_def\<close>)
    have e_L: "int_to_float l = Inr (Fin L)"
      unfolding L_def by (rule int_to_float_small) (use L in \<open>simp add: L_def\<close>)
    have e_num: "to_float (L * d) = Fin (L * d)"
      using num(1) by (simp add: to_float_small)
    have e_den: "to_float (fa * fb) = Fin (fa * fb)"
      using den(2,3) by (simp add: to_float_small del: zero_less_mult_iff)
    have e_quo: "py_truediv (Fin (L * d)) (Fin (fa * fb)) = Inr (Fin (L * d / (fa * fb)))"
      using fa(3) fb(3) by (simp add: py_truediv_def to_float_small [OF quo(1)])
    have a0: "get_amount0_for_liquidity a b l = Inr (py_int (L * d / (fa * fb)))"
      using h by (simp add: get_amount0_for_liquidity_def Let_def py_bind_def
                    e_d e_fa e_fb e_L e_num e_den e_quo)
    have a1: "get_amount1_for_liquidity a b l = Inr (py_int (L * d))"
      using h by (simp add: get_amount1_for_liquidity_def Let_def py_bind_def e_d e_L e_num)
    show ?thesis
      using py_int_nonpos [OF quo(2)] py_int_nonpos [OF num(2)] by (simp add: a0 a1)
  qed
  show ?thesis using zero neg by blast
qed

theorem degenerate_inputs_return_witness:
  "(- 5 :: int) < 0 \<and> - (2 ^ 256) \<le> (- 5 :: int) \<and> 0 < Q96 \<and> Q96 < 2 * Q96
   \<and> 2 * Q96 \<le> 2 ^ 256
   \<and> (\<exists>r. get_amount0_for_liquidity Q96 (2 * Q96) (- 5) = Inr r \<and> r \<le> 0)
   \<and> (\<exists>r. get_amount1_for_liquidity Q96 (2 * Q96) (- 5) = Inr r \<and> r \<le> 0)"
proof -
  have h: "(- 5 :: int) < 0 \<and> - (2 ^ 256) \<le> (- 5 :: int) \<and> 0 < Q96 \<and> Q96 < 2 * Q96
      \<and> 2 * Q96 \<le> 2 ^ 256"
    by (simp add: Q96_def)
  show ?thesis
    using h degenerate_inputs_return [of Q96 "- 5" 0 "2 * Q96"] by blast
qed

section \<open>Rebalancing the portfolio\<close>

subsection \<open>The loops of \<open>rebalance_positions\<close>\<close>






subsection \<open>A worked rebalance\<close>

text \<open>A position on the range \<open>[1, 9]\<close> with liquidity \<open>600 * Q96\<close>, valued at the
  price 4: it holds 100 of the base asset and 600 of the quote asset, worth 1000.\<close>

lemma position_value_example:
  "calculate_position_value 4 1 9 (600 * real_of_int Q96) = Inr (100, 600, 1000)"
proof -
  have roots: "price_to_sqrt_price_x96 4 = Inr (2 * Q96)"
      "price_to_sqrt_price_x96 1 = Inr Q96" "price_to_sqrt_price_x96 9 = Inr (3 * Q96)"
    by (simp_all add: price_to_sqrt_price_x96_def py_int_def Q96_def)
  have liq: "py_int (600 * real_of_int Q96) = 600 * Q96"
    by (simp add: py_int_def Q96_def)
  have amounts: "get_amounts_for_liquidity (2 * Q96) Q96 (3 * Q96) (600 * Q96)
                   = Inr (100 * Q96, 600 * Q96)"
    by (simp add: get_amounts_for_liquidity_def get_amount0_for_liquidity_def
          get_amount1_for_liquidity_def Q96_def py_int_def py_bind_def int_truediv_def
          int_to_float_def float_limit_def to_float_def py_truediv_def)
  show ?thesis
    by (simp add: calculate_position_value_def py_bind_def roots liq amounts)
       (simp add: Q96_def)
qed

lemma get_value_example:
  "get_value (Position 1 9 (600 * real_of_int Q96)) 4 = Inr (100, 600, 1000)"
  by (simp add: get_value_def Position_def position_value_example)



subsection \<open>Value across a rebalance\<close>




subsection \<open>The cost of a rebalance\<close>

lemma rebalance_gas_example:
  "rebalance_positions (Portfolio 10000 5 1 10) [(1, 9)] [600 * real_of_int Q96] 4 =
     (Inr (1000 * (5 / 10000) + 10),
      (Portfolio 10000 5 1 10)\<lparr>cash := 10000 - 1000 * (5 / 10000),
         positions := [Position 1 9 (600 * real_of_int Q96)],
         total_gas_paid := 10,
         transaction_history :=
           [\<lparr>tx_type = ''rebalance'', tx_cost = 1000 * (5 / 10000) + 10,
             tx_positions_count = 1\<rparr>],
         rebalance_count := 1,
         total_fees_paid := 1000 * (5 / 10000) + 10\<rparr>)"
  by (simp add: rebalance_positions_def Portfolio_def position_value_example get_value_example
        py_bind_def Let_def)

text \<open>
  Claim C2 says that a rebalance charges the trading fee on the new positions plus the
  gas cost, debits the cash by that full cost, appends one transaction record and
  increments \<open>rebalance_count\<close>.  The code subtracts the cost from the cash before it adds
  the gas cost to it, so the gas cost is returned, recorded and never debited.  A
  fresh portfolio of 10000 cash with \<open>fee_bps = 5\<close> and \<open>gas_cost = 10\<close>, rebalanced at
  price 4 into one position on \<open>[1, 9]\<close> with liquidity \<open>600 * Q96\<close>, worth 1000: the
  returned cost is \<open>1000 * 0.0005 + 10\<close>, the cash afterwards is \<open>10000 - 1000 * 0.0005\<close>;
  one transaction is recorded and the count is one.
\<close>

theorem rebalance_gas_not_debited:
  "fst (rebalance_positions (Portfolio 10000 5 1 10) [(1, 9)] [600 * real_of_int Q96] 4)
     = Inr (1000 * (5 / 10000) + 10)
   \<and> cash (snd (rebalance_positions (Portfolio 10000 5 1 10) [(1, 9)] [600 * real_of_int Q96] 4))
     = 10000 - 1000 * (5 / 10000)
   \<and> length (transaction_history
        (snd (rebalance_positions (Portfolio 10000 5 1 10) [(1, 9)] [600 * real_of_int Q96] 4))) = 1
   \<and> rebalance_count (snd (rebalance_positions (Portfolio 10000 5 1 10) [(1, 9)] [600 * real_of_int Q96] 4)) = 1"
  by (simp add: rebalance_gas_example)

subsection \<open>Mismatched lists\<close>

text \<open>
  Claim C9.  When \<open>new_ranges\<close> and \<open>new_liquidities\<close> have different lengths,
  \<open>rebalance_positions\<close> raises \<open>ValueError\<close> and the portfolio is the one it was given:
  cash, positions, transaction history and rebalance count are unchanged.
\<close>

theorem rebalance_length_mismatch:
  "length new_ranges \<noteq> length new_liquidities \<Longrightarrow>
   rebalance_positions p new_ranges new_liquidities pr = (Inl ValueError, p)"
  by (simp add: rebalance_positions_def)

theorem rebalance_length_mismatch_witness:
  "length [(1 :: real, 9 :: real)] \<noteq> length ([] :: real list)
   \<and> rebalance_positions (Portfolio 10000 5 1 0) [(1, 9)] [] 4
       = (Inl ValueError, Portfolio 10000 5 1 0)"
  using rebalance_length_mismatch [of "[(1, 9)]" "[]" "Portfolio 10000 5 1 0" 4] by simp

section \<open>The HODL baseline\<close>

text \<open>When the baseline holds no cash, as after \<open>initialize_position\<close>, rebalancing to
  50:50 at a nonzero price keeps the value and makes the two legs equal; a
  single-asset baseline is left alone.\<close>

lemma rebalance_to_50_50_without_cash:
  assumes "b_strategy b = ''hodl_50_50''" and "b_cash b = 0" and "p \<noteq> 0"
  shows "\<exists>b'. rebalance_to_50_50 b p = Inr b'
           \<and> baseline_get_value b' p = baseline_get_value b p
           \<and> b_amount0 b' * p = b_amount1 b'"
  using assms by (simp add: rebalance_to_50_50_def baseline_get_value_def Let_def)

lemma rebalance_to_50_50_single_asset:
  "b_strategy b = ''single_asset'' \<Longrightarrow> rebalance_to_50_50 b p = Inr b"
  by (simp add: rebalance_to_50_50_def)

text \<open>
  Claim C10 says that \<open>rebalance_to_50_50\<close> keeps \<open>get_value\<close> for every state of a
  50:50 baseline.  The value that the function splits includes the cash, and the cash
  stays where it is, so a baseline that still holds cash counts it twice.  A baseline
  constructed with 10000 cash and rebalanced at the price 2000 before
  \<open>initialize_position\<close>: its value is 10000 before and 20000 after.
\<close>

theorem rebalance_to_50_50_counts_cash_twice:
  "rebalance_to_50_50 (BaselinePortfolio 10000 ''hodl_50_50'') 2000
     = Inr ((BaselinePortfolio 10000 ''hodl_50_50'')\<lparr>b_amount0 := 5 / 2, b_amount1 := 5000\<rparr>)
   \<and> baseline_get_value (BaselinePortfolio 10000 ''hodl_50_50'') 2000 = 10000
   \<and> baseline_get_value
        ((BaselinePortfolio 10000 ''hodl_50_50'')\<lparr>b_amount0 := 5 / 2, b_amount1 := 5000\<rparr>) 2000
      = 20000"
  by (simp add: rebalance_to_50_50_def BaselinePortfolio_def baseline_get_value_def)

section \<open>Liquidity curves\<close>

subsection \<open>The shape of the bins\<close>














lemma linspace_6:
  "linspace a b 6 = [a, a + (b - a) / 5, a + 2 * ((b - a) / 5), a + 3 * ((b - a) / 5),
                     a + 4 * ((b - a) / 5), a + 5 * ((b - a) / 5)]"
  by (simp add: linspace_def eval_nat_numeral upt_rec)








section \<open>Triggers\<close>

text \<open>The names that \<open>should_trigger_any\<close> collects are names of the manager, and a
  name is collected exactly when its own trigger answered \<open>True\<close>.\<close>

lemma should_trigger_any_loop_names:
  "should_trigger_any_loop m st = Inr (names, m') \<Longrightarrow> set names \<subseteq> fst ` set m"
proof (induction m arbitrary: names m')
  case Nil
  then show ?case by simp
next
  case (Cons a m)
  obtain n t where a: "a = (n, t)" by (cases a)
  from Cons.prems obtain r t' ns ms where
      t: "should_trigger t st = Inr (r, t')"
      and rest: "should_trigger_any_loop m st = Inr (ns, ms)"
      and names: "names = (if r then n # ns else ns)"
    by (auto simp: a py_bind_def split: sum.splits prod.splits if_splits)
  from Cons.IH [OF rest] show ?case by (auto simp: a names)
qed

lemma should_trigger_any_loop_member:
  assumes "distinct (map fst m)" and "(n, t) \<in> set m"
    and "should_trigger_any_loop m st = Inr (names, m')"
    and "should_trigger t st = Inr (r, t')"
  shows "n \<in> set names \<longleftrightarrow> r"
  using assms
proof (induction m arbitrary: names m')
  case Nil
  then show ?case by simp
next
  case (Cons a m)
  obtain n0 t0 where a: "a = (n0, t0)" by (cases a)
  from Cons.prems(3) obtain r0 t0' ns ms where
      t0: "should_trigger t0 st = Inr (r0, t0')"
      and rest: "should_trigger_any_loop m st = Inr (ns, ms)"
      and names: "names = (if r0 then n0 # ns else ns)"
    by (auto simp: a py_bind_def split: sum.splits prod.splits if_splits)
  have sub: "set ns \<subseteq> fst ` set m" by (rule should_trigger_any_loop_names [OF rest])
  show ?case
  proof (cases "(n, t) = (n0, t0)")
    case True
    then have "r0 = r" using t0 Cons.prems(4) by simp
    moreover have "n0 \<notin> set ns" using sub Cons.prems(1) by (auto simp: a)
    ultimately show ?thesis using True by (auto simp: names)
  next
    case False
    then have mem: "(n, t) \<in> set m" using Cons.prems(2) by (auto simp: a)
    have d: "distinct (map fst m)" using Cons.prems(1) by simp
    have ne: "n \<noteq> n0" using mem Cons.prems(1) by (force simp: a)
    have "n \<in> set ns \<longleftrightarrow> r" by (rule Cons.IH [OF d mem rest Cons.prems(4)])
    then show ?thesis using ne by (auto simp: names)
  qed
qed

lemma gap_from_center_should_trigger:
  assumes "st_position_center st \<noteq> 0"
  shows "should_trigger (Trigger lt cnt (GapFromCenterTrigger ticks (Some 100))) st
     = Inr (\<bar>st_current_price st - st_position_center st\<bar> / st_position_center st * 10000
              \<ge> 100,
            Trigger lt cnt (GapFromCenterTrigger ticks (Some 100)))"
  using assms by (simp only: should_trigger.simps Let_def option.case if_False)

text \<open>
  Claim C5.  For every state with a nonzero position center, a \<open>GapFromCenterTrigger\<close>
  with \<open>gap_bps = 100\<close> answers \<open>True\<close> exactly when
  \<open>|current_price - position_center| / position_center * 10000 \<ge> 100\<close>, whatever its
  own counters hold, and it is left unchanged.  In every trigger manager (distinct
  names) that holds this trigger under a name \<open>n\<close>, whatever the other triggers and
  their private state are, a call of \<open>should_trigger_any\<close> that returns lists \<open>n\<close> among
  the fired names exactly when that condition holds.
\<close>

theorem gap_trigger_deterministic:
  assumes "st_position_center st \<noteq> 0"
  shows "should_trigger (Trigger lt cnt (GapFromCenterTrigger ticks (Some 100))) st
     = Inr (\<bar>st_current_price st - st_position_center st\<bar> / st_position_center st * 10000
              \<ge> 100,
            Trigger lt cnt (GapFromCenterTrigger ticks (Some 100)))
   \<and> (\<forall>m n fired names m'.
         distinct (map fst m)
         \<and> (n, Trigger lt cnt (GapFromCenterTrigger ticks (Some 100))) \<in> set m
         \<and> should_trigger_any m st = Inr ((fired, names), m')
         \<longrightarrow> (n \<in> set names \<longleftrightarrow>
              \<bar>st_current_price st - st_position_center st\<bar> / st_position_center st * 10000
                \<ge> 100))"
proof (intro conjI allI impI)
  show g: "should_trigger (Trigger lt cnt (GapFromCenterTrigger ticks (Some 100))) st
     = Inr (\<bar>st_current_price st - st_position_center st\<bar> / st_position_center st * 10000
              \<ge> 100,
            Trigger lt cnt (GapFromCenterTrigger ticks (Some 100)))"
    by (rule gap_from_center_should_trigger [OF assms])
  fix m n fired names m'
  assume h: "distinct (map fst m)
         \<and> (n, Trigger lt cnt (GapFromCenterTrigger ticks (Some 100))) \<in> set m
         \<and> should_trigger_any m st = Inr ((fired, names), m')"
  then have "should_trigger_any_loop m st = Inr (names, m')"
    by (auto simp: should_trigger_any_def py_bind_def split: sum.splits prod.splits)
  with h g show "n \<in> set names \<longleftrightarrow>
        \<bar>st_current_price st - st_position_center st\<bar> / st_position_center st * 10000 \<ge> 100"
    using should_trigger_any_loop_member by blast
qed

theorem gap_trigger_deterministic_witness:
  "st_position_center
     \<lparr>st_current_price = 2150, st_position_center = 2000, st_lower_price = 1900,
      st_upper_price = 2100, st_position_value = 10000, st_current_timestamp = Some 3600\<rparr> \<noteq> 0
   \<and> distinct (map fst (setup_triggers 100 5 24))
   \<and> (''gap_from_center'', Trigger None 0 (GapFromCenterTrigger 100 (Some 100)))
        \<in> set (setup_triggers 100 5 24)
   \<and> should_trigger_any (setup_triggers 100 5 24)
        \<lparr>st_current_price = 2150, st_position_center = 2000, st_lower_price = 1900,
         st_upper_price = 2100, st_position_value = 10000, st_current_timestamp = Some 3600\<rparr>
      = Inr ((True, [''gap_from_center'', ''range_inactive'']),
             [(''gap_from_center'', Trigger (Some 3600) 1 (GapFromCenterTrigger 100 (Some 100))),
              (''range_inactive'', Trigger (Some 3600) 1 RangeInactiveTrigger),
              (''percent_drift'', Trigger None 0 (PercentDriftTrigger 5 (Some 10000))),
              (''time_elapsed'', Trigger (Some 3600) 0 (ElapsedTimeTrigger 86400))])
   \<and> (''gap_from_center'' \<in> set [''gap_from_center'', ''range_inactive''] \<longleftrightarrow>
        \<bar>2150 - 2000\<bar> / 2000 * 10000 \<ge> (100 :: real))"
proof -
  let ?st = "\<lparr>st_current_price = 2150, st_position_center = 2000, st_lower_price = 1900,
      st_upper_price = 2100, st_position_value = 10000, st_current_timestamp = Some 3600\<rparr>"
  have c: "st_position_center ?st \<noteq> 0" by simp
  have d: "distinct (map fst (setup_triggers 100 5 24))"
    by (simp add: setup_triggers_def)
  have i: "(''gap_from_center'', Trigger None 0 (GapFromCenterTrigger 100 (Some 100)))
        \<in> set (setup_triggers 100 5 24)"
    by (simp add: setup_triggers_def)
  have r: "should_trigger_any (setup_triggers 100 5 24) ?st
      = Inr ((True, [''gap_from_center'', ''range_inactive'']),
             [(''gap_from_center'', Trigger (Some 3600) 1 (GapFromCenterTrigger 100 (Some 100))),
              (''range_inactive'', Trigger (Some 3600) 1 RangeInactiveTrigger),
              (''percent_drift'', Trigger None 0 (PercentDriftTrigger 5 (Some 10000))),
              (''time_elapsed'', Trigger (Some 3600) 0 (ElapsedTimeTrigger 86400))])"
    by (simp add: setup_triggers_def should_trigger_any_def py_bind_def Let_def)
  from gap_trigger_deterministic [OF c, of None 0 100] d i r
  have "''gap_from_center'' \<in> set [''gap_from_center'', ''range_inactive''] \<longleftrightarrow>
        \<bar>st_current_price ?st - st_position_center ?st\<bar> / st_position_center ?st * 10000 \<ge> 100"
    by blast
  then have "''gap_from_center'' \<in> set [''gap_from_center'', ''range_inactive''] \<longleftrightarrow>
        \<bar>2150 - 2000\<bar> / 2000 * 10000 \<ge> (100 :: real)"
    by simp
  with c d i r show ?thesis by blast
qed

section \<open>The Classic policy and the engine on the scenario\<close>

lemma uniform_distribution_2000:
  "generate_distribution (default_curve UniformCurve) 2000 10 (10000 * 0.95)
   = Inr [(1900, 1940, 20), (1940, 1980, 20), (1980, 2020, 20), (2020, 2060, 20),
          (2060, 2100, 20)]"
  by (simp add: generate_distribution_def generate_distribution_impl_def default_curve_def
       bin_count_def bin_prices_def py_int_def linspace_6 Let_def)

lemma uniform_distribution_2150:
  "generate_distribution (default_curve UniformCurve) 2150 10 (10000 * 0.95)
   = Inr [(2042.5, 2085.5, 20), (2085.5, 2128.5, 20), (2128.5, 2171.5, 20),
          (2171.5, 2214.5, 20), (2214.5, 2257.5, 20)]"
  by (simp add: generate_distribution_def generate_distribution_impl_def default_curve_def
       bin_count_def bin_prices_def py_int_def linspace_6 Let_def)

lemma scenario_fields:
  "width_mode scenario_strategy = ''percent''" "width_value scenario_strategy = 10"
  "placement_mode scenario_strategy = ''center''"
  "curve scenario_strategy = default_curve UniformCurve"
  "max_positions scenario_strategy = 1" "initialized scenario_strategy = False"
  by (simp_all add: scenario_strategy_def ClassicStrategy_default_def ClassicStrategy_def)

lemma scenario_bar_fields:
  "bar_close (scenario_bar ts c) = c" "bar_quote_volume (scenario_bar ts c) = c"
  "bar_timestamp (scenario_bar ts c) = ts"
  by (simp_all add: scenario_bar_def)

lemma calculate_range_2000:
  assumes "width_mode s = ''percent''" "width_value s = 10" "placement_mode s = ''center''"
    "curve s = default_curve UniformCurve" "max_positions s = 1"
  shows "calculate_range s pd 2000 10000 = Inr ([(1900, 1940)], [20])"
  using assms uniform_distribution_2000
  by (simp add: calculate_range_def calculate_width_def calculate_center_price_def py_bind_def)

lemma calculate_range_2150:
  assumes "width_mode s = ''percent''" "width_value s = 10" "placement_mode s = ''center''"
    "curve s = default_curve UniformCurve" "max_positions s = 1"
  shows "calculate_range s pd 2150 10000 = Inr ([(2042.5, 2085.5)], [20])"
  using assms uniform_distribution_2150
  by (simp add: calculate_range_def calculate_width_def calculate_center_price_def py_bind_def)

text \<open>With more than one position allowed the policy returns every bin, and the bins
  together cover the range from 1900 to 2100.\<close>

lemma calculate_range_multi_position:
  "calculate_range (scenario_strategy\<lparr>max_positions := 5\<rparr>) pd 2000 10000
     = Inr ([(1900, 1940), (1940, 1980), (1980, 2020), (2020, 2060), (2060, 2100)],
            [20, 20, 20, 20, 20])"
  using uniform_distribution_2000
  by (simp add: calculate_range_def calculate_width_def calculate_center_price_def py_bind_def
        scenario_fields)

lemma first_update_example:
  "classic_update scenario_strategy [scenario_bar 0 2000] 2000 10000 False
    = Inr (True, scenario_strategy\<lparr>current_ranges := [(1900, 1940)],
                   current_liquidities := [20], initialized := True\<rparr>)"
  by (simp add: classic_update_def should_rebalance_def update_def initialize_def py_bind_def
        scenario_fields calculate_range_2000)

lemma second_update_example:
  "classic_update
     (scenario_strategy\<lparr>current_ranges := [(1900, 1940)], current_liquidities := [20],
                    initialized := True\<rparr>)
     [scenario_bar 0 2000, scenario_bar 3600 2150] 2150 10000 False
    = Inr (True,
        scenario_strategy\<lparr>current_ranges := [(2042.5, 2085.5)], current_liquidities := [20],
           initialized := True,
           trigger_manager :=
             [(''gap_from_center'', Trigger (Some 3600) 1 (GapFromCenterTrigger 100 (Some 100))),
              (''range_inactive'', Trigger (Some 3600) 1 RangeInactiveTrigger),
              (''percent_drift'', Trigger None 0 (PercentDriftTrigger 5 (Some 10000))),
              (''time_elapsed'', Trigger (Some 3600) 0 (ElapsedTimeTrigger 86400))],
           strategy_rebalance_count := 1, last_update := Some 3600\<rparr>)"
  by (simp add: classic_update_def should_rebalance_def update_def py_bind_def
        should_trigger_any_def scenario_bar_def Let_def
        calculate_range_2150 should_rebalance_base_def scenario_strategy_def
        ClassicStrategy_default_def ClassicStrategy_def setup_triggers_def)

text \<open>
  Claim C4 says that the Classic policy with width 10 percent at the price 2000 returns
  the range (1900, 2100), and that after the price moved to 2150 the next update
  signals a rebalance with a new range centered at 2150.  With one position
  (\<open>max_positions = 1\<close>, the default) \<open>calculate_range\<close> hands back the first bin of the
  curve's distribution, and the Uniform curve never makes fewer than two bins: the
  range returned at 2000 is (1900, 1940), the first of five bins.  The first update
  signals a rebalance; the update at 2150 signals a rebalance as well, and its new range
  is (2042.5, 2085.5), the first bin of the distribution around 2150.
\<close>

theorem classic_range_is_first_bin:
  "calculate_range scenario_strategy [scenario_bar 0 2000] 2000 10000
     = Inr ([(1900, 1940)], [20])
   \<and> classic_update scenario_strategy [scenario_bar 0 2000] 2000 10000 False
     = Inr (True, scenario_strategy\<lparr>current_ranges := [(1900, 1940)],
                    current_liquidities := [20], initialized := True\<rparr>)
   \<and> fst (projr (classic_update
        (scenario_strategy\<lparr>current_ranges := [(1900, 1940)], current_liquidities := [20],
                            initialized := True\<rparr>)
        [scenario_bar 0 2000, scenario_bar 3600 2150] 2150 10000 False)) = True
   \<and> current_ranges (snd (projr (classic_update
        (scenario_strategy\<lparr>current_ranges := [(1900, 1940)], current_liquidities := [20],
                            initialized := True\<rparr>)
        [scenario_bar 0 2000, scenario_bar 3600 2150] 2150 10000 False)))
     = [(2042.5, 2085.5)]"
  by (simp add: calculate_range_2000 scenario_fields first_update_example
        second_update_example)

subsection \<open>The first update and bar 0 of the engine\<close>

text \<open>A policy that is not initialized signals a rebalance on its first update,
  provided \<open>calculate_range\<close> returns.\<close>

lemma update_uninitialized:
  assumes "\<not> initialized s" and "calc s price_data current_price portfolio_value = Inr (r, l)"
  shows "update calc s price_data current_price portfolio_value force_update
     = Inr (True, s\<lparr>current_ranges := r, current_liquidities := l, initialized := True\<rparr>)"
  using assms by (simp add: update_def initialize_def py_bind_def)

lemma classic_update_uninitialized:
  assumes "\<not> initialized s"
    and "calculate_range s price_data current_price portfolio_value = Inr (r, l)"
  shows "classic_update s price_data current_price portfolio_value force_update
     = Inr (True, s\<lparr>current_ranges := r, current_liquidities := l, initialized := True\<rparr>)"
  using assms by (simp add: classic_update_def should_rebalance_def py_bind_def
        update_uninitialized)

lemma initialize_example:
  "initialize calculate_range scenario_strategy 2000 10000 [scenario_bar 0 2000]
    = Inr (scenario_strategy\<lparr>current_ranges := [(1900, 1940)], current_liquidities := [20],
                    initialized := True\<rparr>)"
  by (simp add: initialize_def py_bind_def scenario_fields calculate_range_2000)

lemma bar0_update_example:
  "classic_update
     (scenario_strategy\<lparr>current_ranges := [(1900, 1940)], current_liquidities := [20],
                    initialized := True\<rparr>)
     [scenario_bar 0 2000] 2000 10000 False
    = Inr (False,
        scenario_strategy\<lparr>current_ranges := [(1900, 1940)], current_liquidities := [20],
           initialized := True,
           trigger_manager :=
             [(''gap_from_center'', Trigger (Some 0) 1 (GapFromCenterTrigger 100 (Some 100))),
              (''range_inactive'', Trigger (Some 0) 1 RangeInactiveTrigger),
              (''percent_drift'', Trigger None 0 (PercentDriftTrigger 5 (Some 10000))),
              (''time_elapsed'', Trigger (Some 0) 0 (ElapsedTimeTrigger 86400))]\<rparr>)"
  by (simp add: classic_update_def should_rebalance_def update_def py_bind_def
        should_trigger_any_def scenario_bar_def Let_def
        calculate_range_2000 should_rebalance_base_def scenario_strategy_def
        ClassicStrategy_default_def ClassicStrategy_def setup_triggers_def)

text \<open>
  Claim C6 says that the first update of an uninitialized policy signals a rebalance,
  so that the engine's initialization at bar 0 forces a first rebalance that opens the
  initial positions.  The first update does signal (lemma
  \<open>classic_update_uninitialized\<close>), but \<open>run\<close> calls \<open>initialize\<close> itself before the loop,
  and the update of bar 0 then finds the policy initialized with the ranges it would
  compute again, and signals nothing.  A run of the scenario policy with 10000 cash
  over the single bar at 2000 returns; afterwards the policy is initialized with the
  range (1900, 1940), and the portfolio has no position, no transaction, a rebalance
  count of zero and a positions value of zero in its equity point.
\<close>

theorem engine_bar0_opens_no_position:
  "\<not> isl (run (Backtester scenario_strategy 10000 5 1 0 0.002) [scenario_bar 0 2000])
   \<and> initialized (strategy (projr (run (Backtester scenario_strategy 10000 5 1 0 0.002)
                                    [scenario_bar 0 2000])))
   \<and> current_ranges (strategy (projr (run (Backtester scenario_strategy 10000 5 1 0 0.002)
                                    [scenario_bar 0 2000]))) = [(1900, 1940)]
   \<and> positions (bt_portfolio (projr (run (Backtester scenario_strategy 10000 5 1 0 0.002)
                                    [scenario_bar 0 2000]))) = []
   \<and> rebalance_count (bt_portfolio (projr (run (Backtester scenario_strategy 10000 5 1 0 0.002)
                                    [scenario_bar 0 2000]))) = 0
   \<and> transaction_history (bt_portfolio (projr (run (Backtester scenario_strategy 10000 5 1 0 0.002)
                                    [scenario_bar 0 2000]))) = []
   \<and> map ep_positions_value
        (equity_curve (bt_portfolio (projr (run (Backtester scenario_strategy 10000 5 1 0 0.002)
                                    [scenario_bar 0 2000])))) = [0]"
  by (simp add: run_def run_bar_def Backtester_def initialize_example bar0_update_example
       py_bind_def initialize_position_def BaselinePortfolio_def Portfolio_def
       update_baseline_portfolios_def rebalance_to_50_50_def baseline_get_value_def
       get_total_value_def add_fees_to_positions_def record_equity_point_def Let_def
       scenario_bar_fields)

end
